theory Spec2Isabelle
  imports Complex_Main "HOL-Library.Word"
begin

section \<open>JavaScript values\<close>

text \<open>
  A JavaScript string is a sequence of UTF-16 code units. String literals of the
  source are written with \<open>js\<close>, which maps every character to its code unit.
\<close>

type_synonym jsstring = "16 word list"

definition js :: "string \<Rightarrow> jsstring" where
  "js s = map (\<lambda>c. of_nat (of_char c)) s"

text \<open>
  A JavaScript number: the value of a finite double, the two infinities, or NaN.
\<close>

datatype jsnum = Fin rat | PosInf | NegInf | NaN

text \<open>
  The values the library receives as arguments and the values \<open>JSON.parse\<close>
  returns. An object is the list of its own properties, looked up by key.
\<close>

datatype jsval =
    JUndefined
  | JNull
  | JBool bool
  | JNum jsnum
  | JStr jsstring
  | JArr "jsval list"
  | JObj "(jsstring \<times> jsval) list"

text \<open>Truthiness, as \<open>!v\<close>, \<open>if (v)\<close> and \<open>v || w\<close> test it.\<close>

fun truthy :: "jsval \<Rightarrow> bool" where
  "truthy JUndefined = False"
| "truthy JNull = False"
| "truthy (JBool b) = b"
| "truthy (JNum (Fin q)) = (q \<noteq> 0)"
| "truthy (JNum PosInf) = True"
| "truthy (JNum NegInf) = True"
| "truthy (JNum NaN) = False"
| "truthy (JStr s) = (s \<noteq> [])"
| "truthy (JArr xs) = True"
| "truthy (JObj kvs) = True"

text \<open>\<open>a || b\<close>: the left operand when it is truthy, the right one otherwise.\<close>

definition jsor :: "jsval \<Rightarrow> jsval \<Rightarrow> jsval" where
  "jsor a b = (if truthy a then a else b)"

text \<open>\<open>a ?? b\<close>: the left operand unless it is \<open>null\<close> or \<open>undefined\<close>.\<close>

definition nullish :: "jsval \<Rightarrow> jsval \<Rightarrow> jsval" where
  "nullish a b = (if a = JUndefined \<or> a = JNull then b else a)"

text \<open>\<open>typeof v === "string"\<close>\<close>

fun is_string :: "jsval \<Rightarrow> bool" where
  "is_string (JStr s) = True"
| "is_string v = False"

text \<open>
  \<open>v?.k\<close>: the property \<open>k\<close> of \<open>v\<close>, \<open>undefined\<close> when \<open>v\<close> is \<open>null\<close>,
  \<open>undefined\<close> or has no such property. None of the keys the source reads
  (\<open>state\<close>, \<open>reply\<close>, \<open>md\<close>, \<open>output_data\<close>, \<open>markdown\<close>, \<open>type\<close>, \<open>language\<close>,
  \<open>isUrl\<close>) is a property of a built-in prototype, so only objects have them.
\<close>

fun get_prop :: "jsval \<Rightarrow> jsstring \<Rightarrow> jsval" where
  "get_prop (JObj kvs) k = (case map_of kvs k of Some v \<Rightarrow> v | None \<Rightarrow> JUndefined)"
| "get_prop v k = JUndefined"

text \<open>A destructuring default \<open>{k = d}\<close> replaces \<open>undefined\<close> only.\<close>

definition default_to :: "jsval \<Rightarrow> jsval \<Rightarrow> jsval" where
  "default_to v d = (if v = JUndefined then d else v)"

text \<open>Decimal digits of a natural number, as a template literal prints an integer.\<close>

fun dec :: "nat \<Rightarrow> jsstring" where
  "dec n = (if n < 10 then [of_nat (48 + n)] else dec (n div 10) @ [of_nat (48 + n mod 10)])"

text \<open>\<open>xs.join(sep)\<close> on a list of strings.\<close>

fun join :: "jsstring \<Rightarrow> jsstring list \<Rightarrow> jsstring" where
  "join sep [] = []"
| "join sep [x] = x"
| "join sep (x # y # ys) = x @ sep @ join sep (y # ys)"

section \<open>Strings: trim, split, prefixes\<close>

text \<open>The code units \<open>String.prototype.trim\<close> removes: WhiteSpace and LineTerminator.\<close>

definition is_ws :: "16 word \<Rightarrow> bool" where
  "is_ws c =
     (c = 0x9 \<or> c = 0xA \<or> c = 0xB \<or> c = 0xC \<or> c = 0xD \<or> c = 0x20 \<or> c = 0xA0
      \<or> c = 0x1680 \<or> (0x2000 \<le> c \<and> c \<le> 0x200A) \<or> c = 0x2028 \<or> c = 0x2029
      \<or> c = 0x202F \<or> c = 0x205F \<or> c = 0x3000 \<or> c = 0xFEFF)"

definition trim :: "jsstring \<Rightarrow> jsstring" where
  "trim s = rev (dropWhile is_ws (rev (dropWhile is_ws s)))"

text \<open>\<open>s.split(sep)\<close> for a separator of one code unit: never an empty list.\<close>

fun split_on :: "16 word \<Rightarrow> jsstring \<Rightarrow> jsstring list" where
  "split_on sep [] = [[]]"
| "split_on sep (c # cs) =
     (if c = sep then [] # split_on sep cs
      else (case split_on sep cs of
              [] \<Rightarrow> [[c]]
            | f # fs \<Rightarrow> (c # f) # fs))"

fun startsWith :: "jsstring \<Rightarrow> jsstring \<Rightarrow> bool" where
  "startsWith s [] = True"
| "startsWith [] (p # ps) = False"
| "startsWith (c # cs) (p # ps) = (c = p \<and> startsWith cs ps)"

text \<open>
  A regular expression anchored at the start, one code-unit test per position;
  \<open>s.replace(re, "")\<close> removes the match when there is one.
\<close>

fun re_matches :: "(16 word \<Rightarrow> bool) list \<Rightarrow> jsstring \<Rightarrow> bool" where
  "re_matches [] s = True"
| "re_matches (p # ps) [] = False"
| "re_matches (p # ps) (c # cs) = (p c \<and> re_matches ps cs)"

definition re_remove :: "(16 word \<Rightarrow> bool) list \<Rightarrow> jsstring \<Rightarrow> jsstring" where
  "re_remove re s = (if re_matches re s then drop (length re) s else s)"

definition re_lit :: "string \<Rightarrow> (16 word \<Rightarrow> bool) list" where
  "re_lit s = map (\<lambda>c x. x = c) (js s)"

text \<open>\<open>.\<close> in a regular expression: any code unit but a line terminator.\<close>

definition re_dot :: "16 word \<Rightarrow> bool" where
  "re_dot c = (c \<noteq> 0xA \<and> c \<noteq> 0xD \<and> c \<noteq> 0x2028 \<and> c \<noteq> 0x2029)"

text \<open>\<open>/^new_message.json:/\<close> (the dot is not escaped) and \<open>/^final:/\<close>.\<close>

definition re_new_message :: "(16 word \<Rightarrow> bool) list" where
  "re_new_message = re_lit ''new_message'' @ [re_dot] @ re_lit ''json:''"

definition re_final :: "(16 word \<Rightarrow> bool) list" where
  "re_final = re_lit ''final:''"

section \<open>Errors\<close>

text \<open>
  \<open>Error m\<close> is \<open>new Error(m)\<close>. \<open>ReferenceError m\<close>, \<open>TypeError m\<close> and \<open>URIError m\<close>
  are what the runtime throws when an identifier is not in scope, when an object
  cannot be converted to a primitive value, and when \<open>encodeURIComponent\<close> meets a
  lone surrogate. None of these has a \<open>code\<close> property. \<open>Thrown c\<close> is an exception
  of the runtime's \<open>fetch\<close>, with its \<open>code\<close> property.
\<close>

datatype error =
    Error jsstring
  | ReferenceError jsstring
  | TypeError jsstring
  | URIError jsstring
  | Thrown jsval

fun error_code :: "error \<Rightarrow> jsval" where
  "error_code (Thrown c) = c"
| "error_code e = JUndefined"

text \<open>The results of a list of steps, up to the first one that throws.\<close>

fun all_results :: "(error + 'a) list \<Rightarrow> error + 'a list" where
  "all_results [] = Inr []"
| "all_results (Inl e # rs) = Inl e"
| "all_results (Inr v # rs) = (case all_results rs of Inl e \<Rightarrow> Inl e | Inr vs \<Rightarrow> Inr (v # vs))"

text \<open>
  \<open>String(v)\<close>, the conversion a template literal and \<open>new Error(v)\<close> apply. The
  printing of a number is the runtime's, passed as \<open>numstr\<close>. An object is the list of
  its own properties and inherits from \<open>Object.prototype\<close>; no value here is a
  function. So an object with an own property \<open>toString\<close> has no callable
  \<open>toString\<close>, its \<open>valueOf\<close> is not callable or returns the object, and the
  conversion throws a TypeError; any other object is printed by
  \<open>Object.prototype.toString\<close>. An array is joined by commas, \<open>null\<close> and
  \<open>undefined\<close> printed as the empty string, and throws when an element does.
\<close>

fun to_string :: "(jsnum \<Rightarrow> jsstring) \<Rightarrow> jsval \<Rightarrow> error + jsstring" where
  "to_string numstr JUndefined = Inr (js ''undefined'')"
| "to_string numstr JNull = Inr (js ''null'')"
| "to_string numstr (JBool b) = Inr (if b then js ''true'' else js ''false'')"
| "to_string numstr (JNum n) = Inr (numstr n)"
| "to_string numstr (JStr s) = Inr s"
| "to_string numstr (JArr xs) =
     (case all_results
             (map (\<lambda>x. if x = JUndefined \<or> x = JNull then Inr [] else to_string numstr x) xs) of
        Inl e \<Rightarrow> Inl e
      | Inr parts \<Rightarrow> Inr (join (js '','') parts))"
| "to_string numstr (JObj kvs) =
     (if js ''toString'' \<in> fst ` set kvs
      then Inl (TypeError (js ''Cannot convert object to primitive value''))
      else Inr (js ''[object Object]''))"

text \<open>
  The string a value is; applied only where \<open>typeof v === "string"\<close> or the
  membership of \<open>v\<close> in a list of strings has been checked.
\<close>

fun string_of :: "jsval \<Rightarrow> jsstring" where
  "string_of (JStr s) = s"
| "string_of v = []"

text \<open>
  Surrogates. \<open>encodeURIComponent\<close> throws on a string with a lone surrogate;
  \<open>URLSearchParams\<close> replaces every lone surrogate by U+FFFD.
\<close>

definition is_high_surrogate :: "16 word \<Rightarrow> bool" where
  "is_high_surrogate c = (0xD800 \<le> c \<and> c \<le> 0xDBFF)"

definition is_low_surrogate :: "16 word \<Rightarrow> bool" where
  "is_low_surrogate c = (0xDC00 \<le> c \<and> c \<le> 0xDFFF)"

fun lone_surrogate :: "jsstring \<Rightarrow> bool" where
  "lone_surrogate [] = False"
| "lone_surrogate [c] = (is_high_surrogate c \<or> is_low_surrogate c)"
| "lone_surrogate (c # d # cs) =
     (if is_high_surrogate c \<and> is_low_surrogate d then lone_surrogate cs
      else is_high_surrogate c \<or> is_low_surrogate c \<or> lone_surrogate (d # cs))"

fun usv_string :: "jsstring \<Rightarrow> jsstring" where
  "usv_string [] = []"
| "usv_string [c] = (if is_high_surrogate c \<or> is_low_surrogate c then [0xFFFD] else [c])"
| "usv_string (c # d # cs) =
     (if is_high_surrogate c \<and> is_low_surrogate d then c # d # usv_string cs
      else if is_high_surrogate c \<or> is_low_surrogate c then 0xFFFD # usv_string (d # cs)
      else c # usv_string (d # cs))"

section \<open>The streaming summary parser\<close>

text \<open>
  The loop of \<open>parseStreamingSummary\<close> runs from the last message to the first;
  here the messages are given last first. The result is \<open>jsonString\<close> when the
  loop ends: \<open>None\<close> is \<open>null\<close>.
\<close>

fun scan_messages :: "jsstring list \<Rightarrow> jsstring option" where
  "scan_messages [] = None"
| "scan_messages (m # ms) =
     (let msg = trim m in
      if startsWith msg (js ''new_message.json:'')
        then Some (trim (re_remove re_new_message msg))
      else if startsWith msg (js ''final:'')
        then Some (trim (re_remove re_final msg))
      else scan_messages ms)"

text \<open>\<open>streamData.split("\x00").filter((msg) => msg.trim())\<close>\<close>

definition stream_messages :: "jsstring \<Rightarrow> jsstring list" where
  "stream_messages streamData = filter (\<lambda>msg. trim msg \<noteq> []) (split_on 0 streamData)"

text \<open>
  \<open>jsonString\<close> after \<open>if (!jsonString) jsonString = messages[messages.length - 1].trim()\<close>:
  \<open>!jsonString\<close> holds for \<open>null\<close> and for the empty string. Only called with
  a non-empty list of messages.
\<close>

definition json_candidate :: "jsstring list \<Rightarrow> jsstring" where
  "json_candidate messages =
     (case scan_messages (rev messages) of
        None \<Rightarrow> trim (last messages)
      | Some s \<Rightarrow> if s = [] then trim (last messages) else s)"

text \<open>
  \<open>parseStreamingSummary\<close>; \<open>JSON_parse\<close> is the runtime's parser, \<open>None\<close> when it
  throws a SyntaxError. The errors of the \<open>try\<close> block that are not a SyntaxError
  are thrown again by the \<open>catch\<close> block. For a SyntaxError the \<open>catch\<close> block
  builds its message from \<open>jsonString\<close>, which is declared with \<open>let\<close> inside the
  \<open>try\<close> block and is not in scope there: the runtime throws a ReferenceError.
\<close>

definition parseStreamingSummary :: "(jsstring \<Rightarrow> jsval option) \<Rightarrow> jsstring \<Rightarrow> error + jsval" where
  "parseStreamingSummary JSON_parse streamData =
     (let messages = stream_messages streamData in
      if length messages = 0 then Inl (Error (js ''No summary data received''))
      else
        let jsonString = json_candidate messages in
        if jsonString = [] then Inl (Error (js ''Empty summary received''))
        else (case JSON_parse jsonString of
                Some parsedData \<Rightarrow> Inr parsedData
              | None \<Rightarrow> Inl (ReferenceError (js ''jsonString is not defined''))))"

subsection \<open>Revision 1.3.0 of the summarizer\<close>

text \<open>
  The revision of \<open>summarize.js\<close> that the change log describes under 1.3.0 reads
  the last message only, removes either tag from it (here the dot of the
  regular expression is escaped), and replaces every failure of the \<open>try\<close> block
  that is not a SyntaxError by one message. Its output joins
  \<open>output_data.markdown\<close> and \<open>md\<close>, in this order, by \<open>??\<close>, and it has no check
  of the error state.
\<close>

definition re_new_message_escaped :: "(16 word \<Rightarrow> bool) list" where
  "re_new_message_escaped = re_lit ''new_message.json:''"

definition parseStreamingSummary_1_3_0 ::
  "(jsstring \<Rightarrow> jsval option) \<Rightarrow> jsstring \<Rightarrow> error + jsval" where
  "parseStreamingSummary_1_3_0 JSON_parse streamData =
     (let messages = stream_messages streamData in
      if length messages = 0 then Inl (Error (js ''Failed to parse summary response''))
      else
        let lastMessage = trim (last messages);
            jsonString = trim (re_remove re_new_message_escaped (re_remove re_final lastMessage))
        in
        if jsonString = [] then Inl (Error (js ''Failed to parse summary response''))
        else (case JSON_parse jsonString of
                Some parsedData \<Rightarrow> Inr parsedData
              | None \<Rightarrow> Inl (Error (js ''Failed to parse summary JSON response''))))"

definition summary_output_1_3_0 :: "jsval \<Rightarrow> jsval" where
  "summary_output_1_3_0 parsedResponse =
     nullish (nullish (get_prop (get_prop parsedResponse (js ''output_data'')) (js ''markdown''))
                      (get_prop parsedResponse (js ''md'')))
             (JStr [])"

section \<open>Requests and responses\<close>

text \<open>
  What is handed to \<open>fetch\<close>: the method, the address without its query, the
  query parameters before percent-encoding, the headers, and the form fields of
  a POST body before percent-encoding.
\<close>

record request =
  req_method :: jsstring
  req_url :: jsstring
  req_query :: "(jsstring \<times> jsstring) list"
  req_headers :: "(jsstring \<times> jsstring) list"
  req_form :: "(jsstring \<times> jsstring) list option"

record response =
  resp_status :: nat
  resp_statusText :: jsstring
  resp_body :: jsstring

text \<open>\<open>response.ok\<close>: the status is in the range 200 to 299.\<close>

definition resp_ok :: "response \<Rightarrow> bool" where
  "resp_ok r = (200 \<le> resp_status r \<and> resp_status r \<le> 299)"

datatype fetch_outcome = Rejected error | Resolved response

text \<open>An exception thrown inside the HTML library; the source never inspects it.\<close>

datatype exn = Exn

text \<open>
  The operations of the HTML library the source calls on a loaded document,
  each of which may throw: \<open>$(selector)\<close>, \<open>.find(selector)\<close>, \<open>.text()\<close> and
  \<open>.attr(name)\<close> (\<open>None\<close> is \<open>undefined\<close>). A selection is the list of its elements
  in document order; \<open>$(element)\<close> is \<open>[element]\<close> and \<open>.first()\<close> is \<open>take 1\<close>.
\<close>

record 'e cheerio =
  cheerio_select :: "jsstring \<Rightarrow> exn + 'e list"
  cheerio_find :: "'e list \<Rightarrow> jsstring \<Rightarrow> exn + 'e list"
  cheerio_text :: "'e list \<Rightarrow> exn + jsstring"
  cheerio_attr :: "'e list \<Rightarrow> jsstring \<Rightarrow> exn + jsstring option"

text \<open>
  What the library takes from outside: the constant \<open>USER_AGENT\<close> of
  \<open>utils/http.js\<close>, the runtime's \<open>fetch\<close>, \<open>JSON.parse\<close> and number printing,
  and \<open>cheerio.load\<close>.
\<close>

record 'e env =
  USER_AGENT :: jsstring
  fetch :: "request \<Rightarrow> fetch_outcome"
  JSON_parse :: "jsstring \<Rightarrow> jsval option"
  Number_toString :: "jsnum \<Rightarrow> jsstring"
  cheerio_load :: "jsstring \<Rightarrow> 'e cheerio"

text \<open>
  The \<open>catch\<close> block of \<open>search\<close> and of \<open>summarize\<close>: a connection failure gets
  its own message, any other error is thrown again.
\<close>

definition network_catch :: "error + 'a \<Rightarrow> error + 'a" where
  "network_catch r =
     (case r of
        Inl e \<Rightarrow>
          if error_code e = JStr (js ''ENOTFOUND'') \<or> error_code e = JStr (js ''ECONNREFUSED'')
          then Inl (Error (js ''Network error: Unable to connect to Kagi''))
          else Inl e
      | Inr v \<Rightarrow> Inr v)"

text \<open>The \<open>if (!response.ok)\<close> block of both entry points.\<close>

definition http_error :: "response \<Rightarrow> error" where
  "http_error r =
     (if resp_status r = 401 \<or> resp_status r = 403
      then Error (js ''Invalid or expired session token'')
      else Error (js ''HTTP '' @ dec (resp_status r) @ js '': '' @ resp_statusText r))"

section \<open>summarize\<close>

definition SUPPORTED_LANGUAGES :: "jsstring list" where
  "SUPPORTED_LANGUAGES = map js
     [''BG'', ''CS'', ''DA'', ''DE'', ''EL'', ''EN'', ''ES'', ''ET'', ''FI'', ''FR'',
      ''HU'', ''ID'', ''IT'', ''JA'', ''KO'', ''LT'', ''LV'', ''NB'', ''NL'', ''PL'',
      ''PT'', ''RO'', ''RU'', ''SK'', ''SL'', ''SV'', ''TR'', ''UK'', ''ZH'', ''ZH-HANT'']"

text \<open>The apostrophe of the messages that quote a value.\<close>

definition apostrophe :: jsstring where
  "apostrophe = [0x27]"

definition summary_headers :: "'e env \<Rightarrow> jsstring \<Rightarrow> (jsstring \<times> jsstring) list" where
  "summary_headers env token =
     [(js ''Accept'', js ''application/vnd.kagi.stream''),
      (js ''Connection'', js ''keep-alive''),
      (js ''Cookie'', js ''kagi_session='' @ token),
      (js ''Host'', js ''kagi.com''),
      (js ''Pragma'', js ''no-cache''),
      (js ''Referer'', js ''https://kagi.com/summarizer''),
      (js ''User-Agent'', USER_AGENT env)]"

definition summary_request ::
  "'e env \<Rightarrow> jsstring \<Rightarrow> jsstring \<Rightarrow> jsstring \<Rightarrow> jsstring \<Rightarrow> bool \<Rightarrow> request" where
  "summary_request env input token language type isUrl =
     (if isUrl then
        \<lparr>req_method = js ''GET'',
         req_url = js ''https://kagi.com/mother/summary_labs'',
         req_query = [(js ''url'', usv_string input), (js ''stream'', js ''1''),
                      (js ''target_language'', usv_string language),
                      (js ''summary_type'', usv_string type)],
         req_headers = summary_headers env token,
         req_form = None\<rparr>
      else
        \<lparr>req_method = js ''POST'',
         req_url = js ''https://kagi.com/mother/summary_labs/'',
         req_query = [],
         req_headers =
           take 2 (summary_headers env token)
           @ [(js ''Content-Type'', js ''application/x-www-form-urlencoded;charset=UTF-8'')]
           @ drop 2 (summary_headers env token),
         req_form = Some [(js ''text'', usv_string input), (js ''stream'', js ''1''),
                          (js ''target_language'', usv_string language),
                          (js ''summary_type'', usv_string type)]\<rparr>)"

text \<open>
  What \<open>summarize\<close> does with the parsed payload: the error state first, then
  the output from \<open>md\<close>, \<open>reply\<close>, \<open>output_data.markdown\<close>, joined by \<open>||\<close>.
  \<open>new Error(errorMsg)\<close> converts its argument to a string, and throws when the
  conversion does.
\<close>

definition summary_output :: "jsval \<Rightarrow> jsval" where
  "summary_output parsedResponse =
     jsor (jsor (jsor (get_prop parsedResponse (js ''md''))
                      (get_prop parsedResponse (js ''reply'')))
                (get_prop (get_prop parsedResponse (js ''output_data'')) (js ''markdown'')))
          (JStr [])"

definition summary_result :: "'e env \<Rightarrow> jsval \<Rightarrow> error + jsval" where
  "summary_result env parsedResponse =
     (if get_prop parsedResponse (js ''state'') = JStr (js ''error'') then
        let errorMsg = jsor (get_prop parsedResponse (js ''reply''))
                            (JStr (js ''Unknown summarization error''))
        in (case to_string (Number_toString env) errorMsg of
              Inl e \<Rightarrow> Inl e
            | Inr message \<Rightarrow> Inl (Error message))
      else
        Inr (JObj [(js ''data'', JObj [(js ''output'', summary_output parsedResponse)])]))"

text \<open>
  \<open>summarize\<close> returns the requests it sent, in order, and its outcome: \<open>Inl\<close>
  is the rejection of the promise. The message for an unsupported language is a
  template literal, which converts the language to a string and throws when the
  conversion does.
\<close>

definition summarize ::
  "'e env \<Rightarrow> jsval \<Rightarrow> jsval \<Rightarrow> jsval \<Rightarrow> request list \<times> (error + jsval)" where
  "summarize env input token options =
     (if \<not> truthy input \<or> \<not> is_string input then
        ([], Inl (Error (js ''Input is required and must be a string'')))
      else if \<not> truthy token \<or> \<not> is_string token then
        ([], Inl (Error (js ''Session token is required and must be a string'')))
      else
        let opts = jsor options (JObj []);
            type = default_to (get_prop opts (js ''type'')) (JStr (js ''summary''));
            language = default_to (get_prop opts (js ''language'')) (JStr (js ''EN''));
            isUrl = default_to (get_prop opts (js ''isUrl'')) (JBool False)
        in
        if type \<notin> set [JStr (js ''summary''), JStr (js ''takeaway'')] then
          ([], Inl (Error (js ''Type must be '' @ apostrophe @ js ''summary'' @ apostrophe
                           @ js '' or '' @ apostrophe @ js ''takeaway'' @ apostrophe)))
        else if language \<notin> set (map JStr SUPPORTED_LANGUAGES) then
          let sl = join (js '', '') SUPPORTED_LANGUAGES in
          (case to_string (Number_toString env) language of
             Inl e \<Rightarrow> ([], Inl e)
           | Inr code \<Rightarrow>
               ([], Inl (Error (js ''Unsupported language code '' @ apostrophe
                                @ code @ apostrophe
                                @ js ''. Supported languages: '' @ sl))))
        else
          let req = summary_request env (string_of input) (string_of token)
                      (string_of language) (string_of type) (truthy isUrl)
          in
          ([req],
           network_catch
             (case fetch env req of
                Rejected e \<Rightarrow> Inl e
              | Resolved response \<Rightarrow>
                  if \<not> resp_ok response then Inl (http_error response)
                  else (case parseStreamingSummary (JSON_parse env) (resp_body response) of
                          Inl e \<Rightarrow> Inl e
                        | Inr parsedResponse \<Rightarrow> summary_result env parsedResponse))))"

section \<open>search\<close>

text \<open>
  \<open>resultCount >= limit\<close> and \<open>resultCount < limit\<close>, a count against a number:
  both are false for NaN.
\<close>

fun count_ge :: "nat \<Rightarrow> jsnum \<Rightarrow> bool" where
  "count_ge c (Fin q) = (q \<le> of_nat c)"
| "count_ge c PosInf = False"
| "count_ge c NegInf = True"
| "count_ge c NaN = False"

fun count_lt :: "nat \<Rightarrow> jsnum \<Rightarrow> bool" where
  "count_lt c (Fin q) = (of_nat c < q)"
| "count_lt c PosInf = True"
| "count_lt c NegInf = False"
| "count_lt c NaN = False"

text \<open>\<open>limit < 1\<close> and \<open>Number.isInteger(limit)\<close> on a number.\<close>

fun less_than_one :: "jsnum \<Rightarrow> bool" where
  "less_than_one (Fin q) = (q < 1)"
| "less_than_one PosInf = False"
| "less_than_one NegInf = True"
| "less_than_one NaN = False"

fun Number_isInteger :: "jsnum \<Rightarrow> bool" where
  "Number_isInteger (Fin q) = (of_int \<lfloor>q\<rfloor> = q)"
| "Number_isInteger n = False"

text \<open>
  The check of \<open>limit\<close> in \<open>search\<close>, after the default has replaced \<open>undefined\<close>:
  \<open>limit !== undefined && (typeof limit !== "number" || limit < 1 || !Number.isInteger(limit))\<close>.
\<close>

fun limit_rejected :: "jsval \<Rightarrow> bool" where
  "limit_rejected JUndefined = False"
| "limit_rejected (JNum n) = (less_than_one n \<or> \<not> Number_isInteger n)"
| "limit_rejected v = True"

text \<open>The number \<open>parseSearchResults\<close> receives: \<open>search\<close> passes only numbers.\<close>

fun the_number :: "jsval \<Rightarrow> jsnum" where
  "the_number (JNum n) = n"
| "the_number v = NaN"

text \<open>A step of a \<open>try\<close> block: the rest runs on the value, an exception ends it.\<close>

definition and_then :: "exn + 'a \<Rightarrow> ('a \<Rightarrow> exn + 'b) \<Rightarrow> exn + 'b" where
  "and_then r f = (case r of Inl x \<Rightarrow> Inl x | Inr v \<Rightarrow> f v)"

text \<open>The object literal both extractors return.\<close>

definition result_object :: "jsstring \<Rightarrow> jsstring \<Rightarrow> jsstring \<Rightarrow> jsval \<Rightarrow> jsval" where
  "result_object url title snippet published =
     JObj [(js ''t'', JNum (Fin 0)),
           (js ''url'', JStr url),
           (js ''title'', JStr title),
           (js ''snippet'', jsor (JStr snippet) (JStr [])),
           (js ''published'', published)]"

text \<open>The object literal \<open>parseSearchResults\<close> appends for the related searches.\<close>

definition related_object :: "jsstring list \<Rightarrow> jsval" where
  "related_object relatedSearches =
     JObj [(js ''t'', JNum (Fin 1)),
           (js ''list'', JArr (map JStr relatedSearches))]"

text \<open>
  The \<open>try\<close> block of \<open>extractSearchResult\<close>: \<open>Inr None\<close> is \<open>return null\<close>, \<open>Inl\<close> an
  exception of the library.
\<close>

definition extractSearchResult_try :: "'e cheerio \<Rightarrow> 'e \<Rightarrow> exn + jsval option" where
  "extractSearchResult_try api element =
     and_then (cheerio_find api [element] (js ''.__sri_title_link'')) (\<lambda>found.
     let titleLink = take 1 found in
     and_then (cheerio_text api titleLink) (\<lambda>titleText.
     let title = trim titleText in
     and_then (cheerio_attr api titleLink (js ''href'')) (\<lambda>url.
     and_then (cheerio_find api [element] (js ''.__sri-desc'')) (\<lambda>desc.
     and_then (cheerio_text api desc) (\<lambda>descText.
     let snippet = trim descText in
     and_then (cheerio_find api [element] (js ''.__sri-time'')) (\<lambda>time.
     and_then (cheerio_text api (take 1 time)) (\<lambda>timeText.
     let published = jsor (JStr (trim timeText)) JNull in
     (case url of
        None \<Rightarrow> Inr None
      | Some u \<Rightarrow>
          if title = [] \<or> u = [] then Inr None
          else Inr (Some (result_object u title snippet published))))))))))"

definition extractSearchResult :: "'e cheerio \<Rightarrow> 'e \<Rightarrow> jsval option" where
  "extractSearchResult api element =
     (case extractSearchResult_try api element of Inl error \<Rightarrow> None | Inr result \<Rightarrow> result)"

definition extractGroupedResult_try :: "'e cheerio \<Rightarrow> 'e \<Rightarrow> exn + jsval option" where
  "extractGroupedResult_try api element =
     and_then (cheerio_find api [element] (js ''.__srgi-title a'')) (\<lambda>found.
     let titleLink = take 1 found in
     and_then (cheerio_text api titleLink) (\<lambda>titleText.
     let title = trim titleText in
     and_then (cheerio_attr api titleLink (js ''href'')) (\<lambda>url.
     and_then (cheerio_find api [element] (js ''.__sri-desc'')) (\<lambda>desc.
     and_then (cheerio_text api desc) (\<lambda>descText.
     let snippet = trim descText in
     and_then (cheerio_find api [element] (js ''.__sri-time'')) (\<lambda>time.
     and_then (cheerio_text api (take 1 time)) (\<lambda>timeText.
     let published = jsor (JStr (trim timeText)) JNull in
     (case url of
        None \<Rightarrow> Inr None
      | Some u \<Rightarrow>
          if title = [] \<or> u = [] then Inr None
          else Inr (Some (result_object u title snippet published))))))))))"

definition extractGroupedResult :: "'e cheerio \<Rightarrow> 'e \<Rightarrow> jsval option" where
  "extractGroupedResult api element =
     (case extractGroupedResult_try api element of Inl error \<Rightarrow> None | Inr result \<Rightarrow> result)"

text \<open>
  \<open>.each(callback)\<close> over the elements of a selection. The callback changes the
  variables it closes over, here the state \<open>'s\<close>, and then returns (\<open>Inr False\<close>
  for \<open>return false\<close>, which ends the loop) or throws (\<open>Inl\<close>, which ends the loop
  and leaves the state as it was changed so far).
\<close>

fun cheerio_each :: "('e \<Rightarrow> 's \<Rightarrow> 's \<times> (exn + bool)) \<Rightarrow> 'e list \<Rightarrow> 's \<Rightarrow> 's \<times> (exn + unit)" where
  "cheerio_each callback [] s = (s, Inr ())"
| "cheerio_each callback (element # rest) s =
     (case callback element s of
        (s', Inl x) \<Rightarrow> (s', Inl x)
      | (s', Inr continue) \<Rightarrow> if continue then cheerio_each callback rest s' else (s', Inr ()))"

text \<open>
  The callback of both iterations of \<open>parseSearchResults\<close>, on the state
  \<open>(results, resultCount)\<close>; \<open>extract\<close> is the extractor of the iteration.
\<close>

definition result_callback ::
  "('e \<Rightarrow> jsval option) \<Rightarrow> jsnum \<Rightarrow> 'e \<Rightarrow> jsval list \<times> nat \<Rightarrow> (jsval list \<times> nat) \<times> (exn + bool)" where
  "result_callback extract limit element s =
     (case s of (results, resultCount) \<Rightarrow>
        if count_ge resultCount limit then ((results, resultCount), Inr False)
        else (case extract element of
                Some result \<Rightarrow> ((results @ [result], resultCount + 1), Inr True)
              | None \<Rightarrow> ((results, resultCount), Inr True)))"

text \<open>The callback of \<open>extractRelatedSearches\<close>, on the state \<open>relatedSearches\<close>.\<close>

definition related_callback :: "'e cheerio \<Rightarrow> 'e \<Rightarrow> jsstring list \<Rightarrow> jsstring list \<times> (exn + bool)" where
  "related_callback api element relatedSearches =
     (case cheerio_text api [element] of
        Inl x \<Rightarrow> (relatedSearches, Inl x)
      | Inr t \<Rightarrow>
          let term = trim t in
          if term \<noteq> [] then (relatedSearches @ [term], Inr True)
          else (relatedSearches, Inr True))"

text \<open>
  \<open>extractRelatedSearches\<close>: the \<open>catch\<close> block is empty, and the function returns
  \<open>relatedSearches\<close> as the \<open>try\<close> block left it.
\<close>

definition extractRelatedSearches :: "'e cheerio \<Rightarrow> jsstring list" where
  "extractRelatedSearches api =
     (case cheerio_select api (js ''.related-searches a span'') of
        Inl error \<Rightarrow> []
      | Inr elements \<Rightarrow> fst (cheerio_each (related_callback api) elements []))"

text \<open>
  The \<open>try\<close> block of \<open>parseSearchResults\<close> on the loaded document: \<open>Inl\<close> is an
  exception that reaches its \<open>catch\<close> block.
\<close>

definition parseSearchResults_try :: "'e cheerio \<Rightarrow> jsnum \<Rightarrow> exn + jsval list" where
  "parseSearchResults_try api limit =
     and_then (cheerio_select api (js ''.search-result'')) (\<lambda>primary.
     (case cheerio_each (result_callback (extractSearchResult api) limit) primary ([], 0) of
        (s, Inl x) \<Rightarrow> Inl x
      | ((results, resultCount), Inr u) \<Rightarrow>
          and_then
            (if count_lt resultCount limit then
               and_then (cheerio_select api (js ''.sr-group .__srgi'')) (\<lambda>grouped.
               (case cheerio_each (result_callback (extractGroupedResult api) limit) grouped
                       (results, resultCount) of
                  (s, Inl x) \<Rightarrow> Inl x
                | (s, Inr u) \<Rightarrow> Inr s))
             else Inr (results, resultCount))
            (\<lambda>(results, resultCount).
               let relatedSearches = extractRelatedSearches api in
               if length relatedSearches > 0 then
                 Inr (results @ [related_object relatedSearches])
               else Inr results)))"

definition parseSearchResults :: "(jsstring \<Rightarrow> 'e cheerio) \<Rightarrow> jsstring \<Rightarrow> jsnum \<Rightarrow> error + jsval list" where
  "parseSearchResults load html limit =
     (case parseSearchResults_try (load html) limit of
        Inl error \<Rightarrow>
          Inl (Error (js ''Failed to parse search results - unexpected HTML structure''))
      | Inr results \<Rightarrow> Inr results)"

definition search_request :: "'e env \<Rightarrow> jsstring \<Rightarrow> jsstring \<Rightarrow> request" where
  "search_request env query token =
     \<lparr>req_method = js ''GET'',
      req_url = js ''https://kagi.com/html/search'',
      req_query = [(js ''q'', query)],
      req_headers = [(js ''User-Agent'', USER_AGENT env),
                     (js ''Cookie'', js ''kagi_session='' @ token)],
      req_form = None\<rparr>"

text \<open>
  \<open>search\<close> returns the requests it sent, in order, and its outcome: \<open>Inl\<close> is
  the rejection of the promise. \<open>limit0\<close> is the third argument as passed,
  \<open>undefined\<close> when omitted. The address is built inside the \<open>try\<close> block before
  \<open>fetch\<close> is called, and \<open>encodeURIComponent(query)\<close> throws there on a lone
  surrogate.
\<close>

definition search ::
  "'e env \<Rightarrow> jsval \<Rightarrow> jsval \<Rightarrow> jsval \<Rightarrow> request list \<times> (error + jsval)" where
  "search env query token limit0 =
     (let limit = default_to limit0 (JNum (Fin 10)) in
      if \<not> truthy query \<or> \<not> is_string query then
        ([], Inl (Error (js ''Search query is required and must be a string'')))
      else if \<not> truthy token \<or> \<not> is_string token then
        ([], Inl (Error (js ''Session token is required and must be a string'')))
      else if limit_rejected limit then
        ([], Inl (Error (js ''Limit must be a positive integer'')))
      else if lone_surrogate (string_of query) then
        ([], network_catch (Inl (URIError (js ''URI malformed''))))
      else
        let req = search_request env (string_of query) (string_of token) in
        ([req],
         network_catch
           (case fetch env req of
              Rejected e \<Rightarrow> Inl e
            | Resolved response \<Rightarrow>
                if \<not> resp_ok response then Inl (http_error response)
                else (case parseSearchResults (cheerio_load env) (resp_body response)
                             (the_number limit) of
                        Inl e \<Rightarrow> Inl e
                      | Inr results \<Rightarrow> Inr (JObj [(js ''data'', JArr results)])))))"

section \<open>The statements of the specification\<close>

text \<open>
  The candidate as the specification words it: the trimmed, tag-stripped text of
  the most recent frame whose trimmed text begins with one of the two tags, and
  the last frame, stripped of a tag if it has one, when no frame is tagged.
\<close>

definition has_tag :: "jsstring \<Rightarrow> bool" where
  "has_tag frame =
     (startsWith (trim frame) (js ''new_message.json:'') \<or> startsWith (trim frame) (js ''final:''))"

definition strip_tag :: "jsstring \<Rightarrow> jsstring" where
  "strip_tag s =
     (if startsWith s (js ''new_message.json:'') then drop (length (js ''new_message.json:'')) s
      else if startsWith s (js ''final:'') then drop (length (js ''final:'')) s
      else s)"

definition spec_candidate :: "jsstring list \<Rightarrow> jsstring" where
  "spec_candidate frames =
     (case find has_tag (rev frames) of
        Some frame \<Rightarrow> trim (strip_tag (trim frame))
      | None \<Rightarrow> trim (strip_tag (trim (last frames))))"

text \<open>
  The output as the specification words it: of \<open>md\<close>, \<open>reply\<close> and
  \<open>output_data.markdown\<close>, in this order, the first that is present; the empty
  string when none is.
\<close>

definition spec_output :: "jsval \<Rightarrow> jsval" where
  "spec_output payload =
     (let md = get_prop payload (js ''md'');
          reply = get_prop payload (js ''reply'');
          markdown = get_prop (get_prop payload (js ''output_data'')) (js ''markdown'')
      in if md \<noteq> JUndefined then md
         else if reply \<noteq> JUndefined then reply
         else if markdown \<noteq> JUndefined then markdown
         else JStr [])"

text \<open>
  The failure message as the specification words it: the \<open>reply\<close> field when
  present, a generic message otherwise.
\<close>

definition spec_error_message :: "jsval \<Rightarrow> jsval" where
  "spec_error_message payload =
     (let reply = get_prop payload (js ''reply'')
      in if reply \<noteq> JUndefined then reply else JStr (js ''Unknown summarization error''))"

text \<open>The first truthy value of a list, \<open>d\<close> when there is none.\<close>

definition first_truthy :: "jsval list \<Rightarrow> jsval \<Rightarrow> jsval" where
  "first_truthy vs d = (case find truthy vs of Some v \<Rightarrow> v | None \<Rightarrow> d)"

text \<open>What \<open>summarize\<close> resolves to for an output.\<close>

definition summary_response :: "jsval \<Rightarrow> jsval" where
  "summary_response output = JObj [(js ''data'', JObj [(js ''output'', output)])]"

text \<open>Arguments the validators accept: a non-empty string, a positive integer.\<close>

fun nonempty_string :: "jsval \<Rightarrow> bool" where
  "nonempty_string (JStr s) = (s \<noteq> [])"
| "nonempty_string v = False"

fun positive_integer :: "jsval \<Rightarrow> bool" where
  "positive_integer (JNum (Fin q)) = (1 \<le> q \<and> q \<in> \<int>)"
| "positive_integer v = False"

text \<open>The summary type and the language of an options argument, with their defaults.\<close>

definition option_type :: "jsval \<Rightarrow> jsval" where
  "option_type options =
     default_to (get_prop (jsor options (JObj [])) (js ''type'')) (JStr (js ''summary''))"

definition option_language :: "jsval \<Rightarrow> jsval" where
  "option_language options =
     default_to (get_prop (jsor options (JObj [])) (js ''language'')) (JStr (js ''EN''))"

text \<open>The records of a result sequence: web results have \<open>t = 0\<close>, related searches \<open>t = 1\<close>.\<close>

definition is_web_result :: "jsval \<Rightarrow> bool" where
  "is_web_result r = (get_prop r (js ''t'') = JNum (Fin 0))"

definition is_related_record :: "jsval \<Rightarrow> bool" where
  "is_related_record r = (get_prop r (js ''t'') = JNum (Fin 1))"

fun keys :: "jsval \<Rightarrow> jsstring list" where
  "keys (JObj kvs) = map fst kvs"
| "keys v = []"

text \<open>The results an extractor gets from a list of elements, in order.\<close>

definition extractable :: "('e \<Rightarrow> jsval option) \<Rightarrow> 'e list \<Rightarrow> jsval list" where
  "extractable extract elements = List.map_filter extract elements"

text \<open>
  All the web results a document offers: those of its primary elements, then
  those of its grouped elements.
\<close>

definition web_results :: "'e cheerio \<Rightarrow> 'e list \<Rightarrow> 'e list \<Rightarrow> jsval list" where
  "web_results api primary grouped =
     extractable (extractSearchResult api) primary @ extractable (extractGroupedResult api) grouped"

text \<open>The non-empty trimmed terms among the texts of the related-search elements.\<close>

definition related_terms :: "jsstring list \<Rightarrow> jsstring list" where
  "related_terms texts = filter (\<lambda>term. term \<noteq> []) (map trim texts)"

text \<open>The \<open>t = 1\<close> record for a list of terms: none when the list is empty.\<close>

definition related_records :: "jsstring list \<Rightarrow> jsval list" where
  "related_records terms = (if terms = [] then [] else [related_object terms])"

text \<open>The five keys of a web result, in the order of the object literal.\<close>

definition web_result_keys :: "jsstring list" where
  "web_result_keys = [js ''t'', js ''url'', js ''title'', js ''snippet'', js ''published'']"

section \<open>Fixtures\<close>

text \<open>
  A document given by what the selectors find in it. \<open>Hit\<close> is a result element
  with the text and \<open>href\<close> of its title link, the text of its description and of
  its time stamp; \<open>Bare\<close> a result element with no title link; \<open>Term\<close> a related
  search; \<open>Broken\<close> an element whose \<open>.text()\<close> throws.
\<close>

datatype node =
    Hit jsstring "jsstring option" jsstring jsstring
  | Bare
  | TitleLink jsstring "jsstring option"
  | Desc jsstring
  | Time jsstring
  | Term jsstring
  | Broken

fun fixture_find :: "node list \<Rightarrow> jsstring \<Rightarrow> node list" where
  "fixture_find [Hit title href desc time] selector =
     (if selector = js ''.__sri_title_link'' \<or> selector = js ''.__srgi-title a''
        then [TitleLink title href]
      else if selector = js ''.__sri-desc'' then [Desc desc]
      else if selector = js ''.__sri-time'' then [Time time]
      else [])"
| "fixture_find elements selector = []"

fun fixture_text :: "node list \<Rightarrow> exn + jsstring" where
  "fixture_text [TitleLink title href] = Inr title"
| "fixture_text [Desc s] = Inr s"
| "fixture_text [Time s] = Inr s"
| "fixture_text [Term s] = Inr s"
| "fixture_text [Broken] = Inl Exn"
| "fixture_text elements = Inr []"

fun fixture_attr :: "node list \<Rightarrow> jsstring \<Rightarrow> jsstring option" where
  "fixture_attr (TitleLink title href # rest) name = (if name = js ''href'' then href else None)"
| "fixture_attr elements name = None"

definition fixture_document :: "node list \<Rightarrow> node list \<Rightarrow> node list \<Rightarrow> node cheerio" where
  "fixture_document primary grouped related =
     \<lparr>cheerio_select = (\<lambda>selector.
        if selector = js ''.search-result'' then Inr primary
        else if selector = js ''.sr-group .__srgi'' then Inr grouped
        else if selector = js ''.related-searches a span'' then Inr related
        else Inr []),
      cheerio_find = (\<lambda>elements selector. Inr (fixture_find elements selector)),
      cheerio_text = fixture_text,
      cheerio_attr = (\<lambda>elements name. Inr (fixture_attr elements name))\<rparr>"

text \<open>
  Three primary elements, the second without a title link, one grouped element
  and four related-search elements, the second blank.
\<close>

definition example_primary :: "node list" where
  "example_primary =
     [Hit (js ''A'') (Some (js ''http://a'')) (js '' about a '') [],
      Bare,
      Hit (js ''B'') (Some (js ''http://b'')) [] (js ''2020'')]"

definition example_grouped :: "node list" where
  "example_grouped = [Hit (js ''C'') (Some (js ''http://c'')) [] []]"

definition example_related :: "node list" where
  "example_related = [Term (js ''x''), Term (js '' ''), Term (js ''y''), Term (js ''z'')]"

definition example_document :: "node cheerio" where
  "example_document = fixture_document example_primary example_grouped example_related"



text \<open>Related searches whose second element throws when its text is read.\<close>

definition throwing_related :: "node list" where
  "throwing_related = [Term (js ''foo''), Broken, Term (js ''bar'')]"

definition throwing_document :: "node cheerio" where
  "throwing_document = fixture_document [] [] throwing_related"

text \<open>
  The example document with other related searches: an element whose text cannot be
  read, then the term \<open>bar\<close>.
\<close>

definition unreadable_related :: "node list" where
  "unreadable_related = [Broken, Term (js ''bar'')]"

definition unreadable_document :: "node cheerio" where
  "unreadable_document = fixture_document example_primary example_grouped unreadable_related"

text \<open>A document none of whose selections can be computed.\<close>

definition broken_document :: "node cheerio" where
  "broken_document =
     \<lparr>cheerio_select = (\<lambda>selector. Inl Exn),
      cheerio_find = (\<lambda>elements selector. Inl Exn),
      cheerio_text = (\<lambda>elements. Inl Exn),
      cheerio_attr = (\<lambda>elements name. Inl Exn)\<rparr>"

text \<open>
  \<open>JSON.parse\<close> on the documents the examples use; the other strings of the
  examples are not JSON.
\<close>

definition fixture_JSON_parse :: "jsstring \<Rightarrow> jsval option" where
  "fixture_JSON_parse s =
     (if s = js ''{\"md\":\"X\"}'' then Some (JObj [(js ''md'', JStr (js ''X''))])
      else if s = js ''{\"md\":\"\",\"reply\":\"Z\"}''
        then Some (JObj [(js ''md'', JStr []), (js ''reply'', JStr (js ''Z''))])
      else if s = js ''{\"state\":\"error\",\"reply\":\"quota exceeded\"}''
        then Some (JObj [(js ''state'', JStr (js ''error'')),
                         (js ''reply'', JStr (js ''quota exceeded''))])
      else if s = js ''{\"state\":\"error\",\"reply\":\"\"}''
        then Some (JObj [(js ''state'', JStr (js ''error'')), (js ''reply'', JStr [])])
      else if s = js ''{\"state\":\"error\",\"reply\":{\"toString\":1}}''
        then Some (JObj [(js ''state'', JStr (js ''error'')),
                         (js ''reply'', JObj [(js ''toString'', JNum (Fin 1))])])
      else None)"

text \<open>An environment whose \<open>fetch\<close> resolves to one response and whose documents load as \<open>api\<close>.\<close>

definition fixture_env :: "response \<Rightarrow> node cheerio \<Rightarrow> node env" where
  "fixture_env response api =
     \<lparr>USER_AGENT = js ''Mozilla/5.0'',
      fetch = (\<lambda>request. Resolved response),
      JSON_parse = fixture_JSON_parse,
      Number_toString = (\<lambda>n. js ''0''),
      cheerio_load = (\<lambda>html. api)\<rparr>"

definition not_found_response :: response where
  "not_found_response =
     \<lparr>resp_status = 404, resp_statusText = js ''Not Found'', resp_body = []\<rparr>"

definition forbidden_response :: response where
  "forbidden_response =
     \<lparr>resp_status = 403, resp_statusText = js ''Forbidden'', resp_body = []\<rparr>"

definition ok_response :: "jsstring \<Rightarrow> response" where
  "ok_response body = \<lparr>resp_status = 200, resp_statusText = js ''OK'', resp_body = body\<rparr>"

section \<open>Properties\<close>

subsection \<open>The stream parser and summarize\<close>

lemmas eval_defs = js_def trim_def is_ws_def stream_messages_def json_candidate_def
  re_remove_def re_lit_def re_dot_def re_new_message_def re_final_def

lemma network_catch_Error: "network_catch (Inl (Error m)) = Inl (Error m)"
  by (simp add: network_catch_def)

lemma network_catch_ReferenceError: "network_catch (Inl (ReferenceError m)) = Inl (ReferenceError m)"
  by (simp add: network_catch_def)

lemma network_catch_Inr: "network_catch (Inr v) = Inr v"
  by (simp add: network_catch_def)

lemma stream_messages_nonblank: "m \<in> set (stream_messages body) \<Longrightarrow> trim m \<noteq> []"
  by (simp add: stream_messages_def)

lemma json_candidate_nonempty:
  assumes "messages \<noteq> []" and "\<forall>m \<in> set messages. trim m \<noteq> []"
  shows "json_candidate messages \<noteq> []"
proof -
  from assms have "trim (last messages) \<noteq> []" by simp
  then show ?thesis
    by (simp add: json_candidate_def split: option.splits)
qed

lemma parseStreamingSummary_outcomes:
  "parseStreamingSummary P body =
     (if stream_messages body = [] then Inl (Error (js ''No summary data received''))
      else (case P (json_candidate (stream_messages body)) of
              Some v \<Rightarrow> Inr v
            | None \<Rightarrow> Inl (ReferenceError (js ''jsonString is not defined''))))"
proof (cases "stream_messages body = []")
  case True
  then show ?thesis by (simp add: parseStreamingSummary_def)
next
  case False
  then have "json_candidate (stream_messages body) \<noteq> []"
    by (intro json_candidate_nonempty) (auto dest: stream_messages_nonblank)
  with False show ?thesis by (simp add: parseStreamingSummary_def Let_def)
qed

lemma parseStreamingSummary_error_kinds:
  "parseStreamingSummary P body = Inl e \<Longrightarrow>
     e = Error (js ''No summary data received'') \<or> e = ReferenceError (js ''jsonString is not defined'')"
  by (auto simp: parseStreamingSummary_outcomes split: if_splits option.splits)

lemma network_catch_no_code: "error_code e = JUndefined \<Longrightarrow> network_catch (Inl e) = Inl e"
  by (simp add: network_catch_def)

lemma all_results_Inl: "all_results rs = Inl e \<Longrightarrow> Inl e \<in> set rs"
  by (induction rs rule: all_results.induct) (auto split: sum.splits)

lemma to_string_error_kinds:
  "to_string numstr v = Inl e \<Longrightarrow> e = TypeError (js ''Cannot convert object to primitive value'')"
proof (induction numstr v arbitrary: e rule: to_string.induct)
  case (6 numstr xs)
  from "6.prems" have "all_results
      (map (\<lambda>x. if x = JUndefined \<or> x = JNull then Inr [] else to_string numstr x) xs) = Inl e"
    by (simp split: sum.splits)
  from all_results_Inl[OF this] obtain x where "x \<in> set xs" "\<not> (x = JUndefined \<or> x = JNull)"
    "to_string numstr x = Inl e"
    by (auto split: if_splits)
  then show ?case using "6.IH" by blast
qed (auto split: if_splits)

lemma summary_result_error_kinds:
  "summary_result env p = Inl e \<Longrightarrow>
   (\<exists>m. e = Error m) \<or> e = TypeError (js ''Cannot convert object to primitive value'')"
  by (auto simp: summary_result_def Let_def split: if_splits sum.splits
      dest: to_string_error_kinds)

lemma no_request_case:
  "((case x of Inl e \<Rightarrow> ([], f e) | Inr c \<Rightarrow> ([], g c)) = (r # rs, out)) = False"
  by (cases x) simp_all

lemma summarize_received:
  assumes "summarize env input token options = ([req], out)"
    and "fetch env req = Resolved r"
  shows "out =
     (if \<not> resp_ok r then Inl (http_error r)
      else (case parseStreamingSummary (JSON_parse env) (resp_body r) of
              Inl e \<Rightarrow> Inl e
            | Inr payload \<Rightarrow> summary_result env payload))"
proof -
  have hk: "network_catch (Inl (http_error r)) = Inl (http_error r)"
    by (simp add: http_error_def network_catch_Error)
  have pk: "network_catch (case parseStreamingSummary (JSON_parse env) (resp_body r) of
              Inl e \<Rightarrow> Inl e | Inr payload \<Rightarrow> summary_result env payload)
          = (case parseStreamingSummary (JSON_parse env) (resp_body r) of
              Inl e \<Rightarrow> Inl e | Inr payload \<Rightarrow> summary_result env payload)"
  proof (cases "parseStreamingSummary (JSON_parse env) (resp_body r)")
    case (Inl e)
    then show ?thesis
      using parseStreamingSummary_error_kinds[OF Inl]
      by (auto simp: network_catch_Error network_catch_ReferenceError)
  next
    case (Inr p)
    show ?thesis
    proof (cases "summary_result env p")
      case (Inl e)
      with summary_result_error_kinds[OF Inl] Inr show ?thesis
        by (auto simp: network_catch_no_code)
    next
      case (Inr v)
      with \<open>parseStreamingSummary (JSON_parse env) (resp_body r) = Inr p\<close> show ?thesis
        by (simp add: network_catch_Inr)
    qed
  qed
  from assms show ?thesis
    unfolding summarize_def Let_def
    by (auto split: if_splits simp: hk pk no_request_case)
qed

text \<open>
  C2, at the stream body \<open>final:\<close> NUL \<open>{"md":"X"}\<close>: the messages are \<open>final:\<close> and
  \<open>{"md":"X"}\<close>. The most recent tagged frame is \<open>final:\<close>, whose tag-stripped text is
  empty, and that is the candidate of the specification. The source takes the last
  message instead, because \<open>!jsonString\<close> also holds for the empty string, and returns
  the parsed payload.
\<close>

theorem candidate_after_empty_tagged_frame:
  "stream_messages (js ''final:'' @ [0] @ js ''{\"md\":\"X\"}'') = [js ''final:'', js ''{\"md\":\"X\"}'']
   \<and> json_candidate [js ''final:'', js ''{\"md\":\"X\"}''] = js ''{\"md\":\"X\"}''
   \<and> spec_candidate [js ''final:'', js ''{\"md\":\"X\"}''] = []
   \<and> parseStreamingSummary fixture_JSON_parse (js ''final:'' @ [0] @ js ''{\"md\":\"X\"}'')
       = Inr (JObj [(js ''md'', JStr (js ''X''))])"
  by (simp add: eval_defs has_tag_def strip_tag_def spec_candidate_def
      parseStreamingSummary_def fixture_JSON_parse_def)

text \<open>
  C6, at the stream bodies \<open>not json\<close> and \<open>final:\<close>: the candidate is the whole body, it is
  not JSON, and the failure is the ReferenceError of the \<open>catch\<close> block, not a parse
  error. For \<open>final:\<close> the tag-stripped text is empty, and no empty-summary error is
  raised either.
\<close>

theorem syntax_error_is_reference_error:
  "parseStreamingSummary fixture_JSON_parse (js ''not json'')
     = Inl (ReferenceError (js ''jsonString is not defined''))
   \<and> parseStreamingSummary fixture_JSON_parse (js ''final:'')
     = Inl (ReferenceError (js ''jsonString is not defined''))"
  by (simp add: eval_defs parseStreamingSummary_def fixture_JSON_parse_def)

lemma empty_summary_unreachable:
  "parseStreamingSummary P body \<noteq> Inl (Error (js ''Empty summary received''))"
  by (simp add: parseStreamingSummary_outcomes js_def split: option.splits)

lemma find_truthy3:
  "first_truthy [a, b, c] d = jsor (jsor (jsor a b) c) d"
  by (simp add: first_truthy_def jsor_def)

text \<open>
  C3, as amended: for a response that was received with a 2xx status and whose payload
  parsed and is not in the error state, \<open>summarize\<close> resolves to the output that is the
  first truthy value among \<open>md\<close>, \<open>reply\<close> and \<open>output_data.markdown\<close>, in this order, and
  to the empty string when none of them is truthy.
\<close>

theorem summarize_output_first_truthy:
  assumes "summarize env input token options = ([req], out)"
    and "fetch env req = Resolved r"
    and "resp_ok r"
    and "parseStreamingSummary (JSON_parse env) (resp_body r) = Inr payload"
    and "get_prop payload (js ''state'') \<noteq> JStr (js ''error'')"
  shows "out = Inr (summary_response
           (first_truthy [get_prop payload (js ''md''),
                          get_prop payload (js ''reply''),
                          get_prop (get_prop payload (js ''output_data'')) (js ''markdown'')]
                         (JStr [])))"
  using summarize_received[OF assms(1,2)] assms(3,4,5)
  by (simp add: summary_result_def summary_output_def summary_response_def find_truthy3)

lemma fixture_summarize:
  "summarize (fixture_env r api) (JStr (js ''text'')) (JStr (js ''token'')) JUndefined
     = ([summary_request (fixture_env r api) (js ''text'') (js ''token'') (js ''EN'') (js ''summary'') False],
        snd (summarize (fixture_env r api) (JStr (js ''text'')) (JStr (js ''token'')) JUndefined))"
  by (simp add: summarize_def Let_def jsor_def default_to_def SUPPORTED_LANGUAGES_def js_def)

lemma fixture_summarize_ok:
  "snd (summarize (fixture_env (ok_response body) api) (JStr (js ''text'')) (JStr (js ''token'')) JUndefined)
     = (case parseStreamingSummary fixture_JSON_parse body of
          Inl e \<Rightarrow> Inl e
        | Inr payload \<Rightarrow> summary_result (fixture_env (ok_response body) api) payload)"
proof -
  have "fetch (fixture_env (ok_response body) api)
          (summary_request (fixture_env (ok_response body) api) (js ''text'') (js ''token'')
             (js ''EN'') (js ''summary'') False) = Resolved (ok_response body)"
    by (simp add: fixture_env_def)
  from summarize_received[OF fixture_summarize this] show ?thesis
    by (simp add: ok_response_def resp_ok_def fixture_env_def)
qed

lemma parse_md_reply:
  "parseStreamingSummary fixture_JSON_parse (js ''new_message.json:{\"md\":\"\",\"reply\":\"Z\"}'')
     = Inr (JObj [(js ''md'', JStr []), (js ''reply'', JStr (js ''Z''))])"
  by (simp add: eval_defs parseStreamingSummary_def fixture_JSON_parse_def)

text \<open>
  The payload \<open>{"md":"","reply":"Z"}\<close>: \<open>md\<close> is present and empty, the output is \<open>Z\<close>.
\<close>

theorem summarize_output_first_truthy_witness:
  "resp_ok (ok_response (js ''new_message.json:{\"md\":\"\",\"reply\":\"Z\"}''))
   \<and> get_prop (JObj [(js ''md'', JStr []), (js ''reply'', JStr (js ''Z''))]) (js ''state'')
       \<noteq> JStr (js ''error'')
   \<and> snd (summarize
         (fixture_env (ok_response (js ''new_message.json:{\"md\":\"\",\"reply\":\"Z\"}'')) broken_document)
         (JStr (js ''text'')) (JStr (js ''token'')) JUndefined)
       = Inr (summary_response (JStr (js ''Z'')))"
proof -
  let ?r = "ok_response (js ''new_message.json:{\"md\":\"\",\"reply\":\"Z\"}'')"
  let ?env = "fixture_env ?r broken_document"
  let ?p = "JObj [(js ''md'', JStr []), (js ''reply'', JStr (js ''Z''))]"
  have 2: "fetch ?env (summary_request ?env (js ''text'') (js ''token'') (js ''EN'') (js ''summary'') False)
             = Resolved ?r"
    by (simp add: fixture_env_def)
  have 3: "resp_ok ?r" by (simp add: ok_response_def resp_ok_def)
  have 4: "parseStreamingSummary (JSON_parse ?env) (resp_body ?r) = Inr ?p"
    using parse_md_reply by (simp add: fixture_env_def ok_response_def)
  have 5: "get_prop ?p (js ''state'') \<noteq> JStr (js ''error'')" by (simp add: js_def)
  from summarize_output_first_truthy[OF fixture_summarize 2 3 4 5] 3 5 show ?thesis
    by (simp add: first_truthy_def js_def)
qed

text \<open>
  C3 as stated fails at the payload \<open>{"md":"","reply":"Z"}\<close>: the first present value is
  the empty \<open>md\<close>, and \<open>summarize\<close> resolves to the output \<open>Z\<close>.
\<close>

theorem output_first_present_counterexample:
  "parseStreamingSummary fixture_JSON_parse (js ''new_message.json:{\"md\":\"\",\"reply\":\"Z\"}'')
     = Inr (JObj [(js ''md'', JStr []), (js ''reply'', JStr (js ''Z''))])
   \<and> spec_output (JObj [(js ''md'', JStr []), (js ''reply'', JStr (js ''Z''))]) = JStr []
   \<and> snd (summarize
         (fixture_env (ok_response (js ''new_message.json:{\"md\":\"\",\"reply\":\"Z\"}'')) broken_document)
         (JStr (js ''text'')) (JStr (js ''token'')) JUndefined)
       \<noteq> Inr (summary_response
                (spec_output (JObj [(js ''md'', JStr []), (js ''reply'', JStr (js ''Z''))])))"
proof -
  have "snd (summarize
         (fixture_env (ok_response (js ''new_message.json:{\"md\":\"\",\"reply\":\"Z\"}'')) broken_document)
         (JStr (js ''text'')) (JStr (js ''token'')) JUndefined)
       = Inr (summary_response (JStr (js ''Z'')))"
    unfolding fixture_summarize_ok parse_md_reply
    by (simp add: summary_result_def summary_output_def summary_response_def jsor_def js_def)
  moreover have "spec_output (JObj [(js ''md'', JStr []), (js ''reply'', JStr (js ''Z''))]) = JStr []"
    by (simp add: spec_output_def js_def)
  moreover have "summary_response (JStr (js ''Z'')) \<noteq> summary_response (JStr [])"
    by (simp add: summary_response_def js_def)
  ultimately show ?thesis using parse_md_reply by simp
qed

text \<open>
  C5, as amended: for a response that was received with a 2xx status and whose payload
  parsed with \<open>state\<close> equal to \<open>"error"\<close>, \<open>summarize\<close> rejects. The message is the
  \<open>reply\<close> field converted to a string when that field is truthy, and
  \<open>Unknown summarization error\<close> otherwise; when the conversion of a truthy \<open>reply\<close>
  throws, the rejection is the TypeError of the conversion.
\<close>

theorem summarize_error_state:
  assumes "summarize env input token options = ([req], out)"
    and "fetch env req = Resolved r"
    and "resp_ok r"
    and "parseStreamingSummary (JSON_parse env) (resp_body r) = Inr payload"
    and "get_prop payload (js ''state'') = JStr (js ''error'')"
  shows "out =
     (case to_string (Number_toString env)
             (first_truthy [get_prop payload (js ''reply'')]
                (JStr (js ''Unknown summarization error''))) of
        Inr message \<Rightarrow> Inl (Error message)
      | Inl e \<Rightarrow> Inl e)"
  using summarize_received[OF assms(1,2)] assms(3,4,5)
  by (simp add: summary_result_def first_truthy_def jsor_def split: sum.splits)

lemma parse_quota:
  "parseStreamingSummary fixture_JSON_parse
     (js ''new_message.json:{\"state\":\"error\",\"reply\":\"quota exceeded\"}'')
     = Inr (JObj [(js ''state'', JStr (js ''error'')), (js ''reply'', JStr (js ''quota exceeded''))])"
  by (simp add: eval_defs parseStreamingSummary_def fixture_JSON_parse_def)

lemma parse_empty_reply:
  "parseStreamingSummary fixture_JSON_parse
     (js ''new_message.json:{\"state\":\"error\",\"reply\":\"\"}'')
     = Inr (JObj [(js ''state'', JStr (js ''error'')), (js ''reply'', JStr [])])"
  by (simp add: eval_defs parseStreamingSummary_def fixture_JSON_parse_def)

lemma parse_unconvertible_reply:
  "parseStreamingSummary fixture_JSON_parse
     (js ''new_message.json:{\"state\":\"error\",\"reply\":{\"toString\":1}}'')
     = Inr (JObj [(js ''state'', JStr (js ''error'')),
                  (js ''reply'', JObj [(js ''toString'', JNum (Fin 1))])])"
  by (simp add: eval_defs parseStreamingSummary_def fixture_JSON_parse_def)

text \<open>
  The payload \<open>{"state":"error","reply":"quota exceeded"}\<close>: the message is
  \<open>quota exceeded\<close>. The payload \<open>{"state":"error","reply":{"toString":1}}\<close>: the
  rejection is the TypeError.
\<close>

theorem summarize_error_state_witness:
  "get_prop (JObj [(js ''state'', JStr (js ''error'')), (js ''reply'', JStr (js ''quota exceeded''))])
       (js ''state'') = JStr (js ''error'')
   \<and> snd (summarize
         (fixture_env (ok_response
            (js ''new_message.json:{\"state\":\"error\",\"reply\":\"quota exceeded\"}'')) broken_document)
         (JStr (js ''text'')) (JStr (js ''token'')) JUndefined)
       = Inl (Error (js ''quota exceeded''))
   \<and> snd (summarize
         (fixture_env (ok_response
            (js ''new_message.json:{\"state\":\"error\",\"reply\":{\"toString\":1}}'')) broken_document)
         (JStr (js ''text'')) (JStr (js ''token'')) JUndefined)
       = Inl (TypeError (js ''Cannot convert object to primitive value''))"
proof -
  let ?r = "ok_response (js ''new_message.json:{\"state\":\"error\",\"reply\":\"quota exceeded\"}'')"
  let ?env = "fixture_env ?r broken_document"
  let ?p = "JObj [(js ''state'', JStr (js ''error'')), (js ''reply'', JStr (js ''quota exceeded''))]"
  have 2: "fetch ?env (summary_request ?env (js ''text'') (js ''token'') (js ''EN'') (js ''summary'') False)
             = Resolved ?r"
    by (simp add: fixture_env_def)
  have 3: "resp_ok ?r" by (simp add: ok_response_def resp_ok_def)
  have 4: "parseStreamingSummary (JSON_parse ?env) (resp_body ?r) = Inr ?p"
    using parse_quota by (simp add: fixture_env_def ok_response_def)
  have 5: "get_prop ?p (js ''state'') = JStr (js ''error'')" by (simp add: js_def)
  from summarize_error_state[OF fixture_summarize 2 3 4 5]
  have a: "snd (summarize ?env (JStr (js ''text'')) (JStr (js ''token'')) JUndefined)
       = Inl (Error (js ''quota exceeded''))"
    by (simp add: first_truthy_def js_def)
  let ?r' = "ok_response (js ''new_message.json:{\"state\":\"error\",\"reply\":{\"toString\":1}}'')"
  let ?env' = "fixture_env ?r' broken_document"
  let ?p' = "JObj [(js ''state'', JStr (js ''error'')),
                   (js ''reply'', JObj [(js ''toString'', JNum (Fin 1))])]"
  have q2: "fetch ?env' (summary_request ?env' (js ''text'') (js ''token'') (js ''EN'') (js ''summary'') False)
             = Resolved ?r'"
    by (simp add: fixture_env_def)
  have q3: "resp_ok ?r'" by (simp add: ok_response_def resp_ok_def)
  have q4: "parseStreamingSummary (JSON_parse ?env') (resp_body ?r') = Inr ?p'"
    using parse_unconvertible_reply by (simp add: fixture_env_def ok_response_def)
  have q5: "get_prop ?p' (js ''state'') = JStr (js ''error'')" by (simp add: js_def)
  from summarize_error_state[OF fixture_summarize q2 q3 q4 q5]
  have b: "snd (summarize ?env' (JStr (js ''text'')) (JStr (js ''token'')) JUndefined)
       = Inl (TypeError (js ''Cannot convert object to primitive value''))"
    by (simp add: first_truthy_def js_def)
  from 5 a b show ?thesis by simp
qed

text \<open>
  C5 as stated fails at the payload \<open>{"state":"error","reply":""}\<close>: the \<open>reply\<close> field is
  present, and the message is the generic one.
\<close>

theorem error_message_reply_present_counterexample:
  "parseStreamingSummary fixture_JSON_parse
     (js ''new_message.json:{\"state\":\"error\",\"reply\":\"\"}'')
     = Inr (JObj [(js ''state'', JStr (js ''error'')), (js ''reply'', JStr [])])
   \<and> spec_error_message (JObj [(js ''state'', JStr (js ''error'')), (js ''reply'', JStr [])]) = JStr []
   \<and> snd (summarize
         (fixture_env (ok_response (js ''new_message.json:{\"state\":\"error\",\"reply\":\"\"}''))
            broken_document)
         (JStr (js ''text'')) (JStr (js ''token'')) JUndefined)
       = Inl (Error (js ''Unknown summarization error''))"
proof -
  have "snd (summarize
         (fixture_env (ok_response (js ''new_message.json:{\"state\":\"error\",\"reply\":\"\"}''))
            broken_document)
         (JStr (js ''text'')) (JStr (js ''token'')) JUndefined)
       = Inl (Error (js ''Unknown summarization error''))"
    unfolding fixture_summarize_ok parse_empty_reply
    by (simp add: summary_result_def jsor_def js_def)
  moreover have "spec_error_message (JObj [(js ''state'', JStr (js ''error'')), (js ''reply'', JStr [])])
      = JStr []"
    by (simp add: spec_error_message_def js_def)
  ultimately show ?thesis using parse_empty_reply by simp
qed

subsection \<open>The iterations of the search parser\<close>

lemma map_filter_Cons_Some: "f x = Some y \<Longrightarrow> List.map_filter f (x # xs) = y # List.map_filter f xs"
  by (simp add: map_filter_simps)

lemma map_filter_Cons_None: "f x = None \<Longrightarrow> List.map_filter f (x # xs) = List.map_filter f xs"
  by (simp add: map_filter_simps)

lemma result_callback_stop:
  "count_ge c limit \<Longrightarrow> result_callback extract limit e (results, c) = ((results, c), Inr False)"
  by (simp add: result_callback_def)

lemma result_callback_Some:
  "\<not> count_ge c limit \<Longrightarrow> extract e = Some r \<Longrightarrow>
   result_callback extract limit e (results, c) = ((results @ [r], c + 1), Inr True)"
  by (simp add: result_callback_def)

lemma result_callback_None:
  "\<not> count_ge c limit \<Longrightarrow> extract e = None \<Longrightarrow>
   result_callback extract limit e (results, c) = ((results, c), Inr True)"
  by (simp add: result_callback_def)

lemma each_result_limited:
  "cheerio_each (result_callback extract (Fin (of_nat n))) elements (results, c) =
     ((results @ take (n - c) (extractable extract elements),
       c + length (take (n - c) (extractable extract elements))), Inr ())"
proof (induction elements arbitrary: results c)
  case Nil
  then show ?case by (simp add: extractable_def map_filter_simps)
next
  case (Cons e es)
  show ?case
  proof (cases "n \<le> c")
    case True
    then show ?thesis by (simp add: result_callback_stop)
  next
    case False
    then have lt: "c < n" by simp
    show ?thesis
    proof (cases "extract e")
      case None
      with lt Cons.IH[of results c] show ?thesis
        by (simp add: result_callback_None extractable_def map_filter_Cons_None)
    next
      case (Some r)
      from lt have "n - c = Suc (n - Suc c)" by simp
      with Some lt Cons.IH[of "results @ [r]" "Suc c"] show ?thesis
        by (simp add: result_callback_Some extractable_def map_filter_Cons_Some)
    qed
  qed
qed


lemma each_result_origin:
  "cheerio_each (result_callback extract limit) elements (results, c) = ((results', c'), out) \<Longrightarrow>
   out = Inr () \<and> set results' \<subseteq> set results \<union> {r. \<exists>e \<in> set elements. extract e = Some r}"
proof (induction elements arbitrary: results c)
  case Nil
  then show ?case by simp
next
  case (Cons e es)
  show ?case
  proof (cases "count_ge c limit")
    case True
    with Cons.prems show ?thesis by (simp add: result_callback_stop)
  next
    case False
    show ?thesis
    proof (cases "extract e")
      case None
      with False Cons.prems
      have "cheerio_each (result_callback extract limit) es (results, c) = ((results', c'), out)"
        by (simp add: result_callback_None)
      from Cons.IH[OF this] show ?thesis by auto
    next
      case (Some r)
      with False Cons.prems
      have "cheerio_each (result_callback extract limit) es (results @ [r], c + 1) = ((results', c'), out)"
        by (simp add: result_callback_Some)
      from Cons.IH[OF this] Some show ?thesis by auto
    qed
  qed
qed

lemma each_related_all:
  "map (\<lambda>e. cheerio_text api [e]) elements = map Inr texts \<Longrightarrow>
   cheerio_each (related_callback api) elements acc = (acc @ related_terms texts, Inr ())"
proof (induction elements arbitrary: acc texts)
  case Nil
  then show ?case by (simp add: related_terms_def)
next
  case (Cons e es)
  then obtain t ts where ts: "texts = t # ts" "cheerio_text api [e] = Inr t"
    "map (\<lambda>e. cheerio_text api [e]) es = map Inr ts"
    by (cases texts) auto
  from Cons.IH[OF ts(3)] ts(1,2) show ?case
    by (simp add: related_callback_def related_terms_def Let_def)
qed

lemma extractRelatedSearches_all:
  "cheerio_select api (js ''.related-searches a span'') = Inr related \<Longrightarrow>
   map (\<lambda>e. cheerio_text api [e]) related = map Inr texts \<Longrightarrow>
   extractRelatedSearches api = related_terms texts"
  by (simp add: extractRelatedSearches_def each_related_all)

lemma parseSearchResults_try_limited:
  assumes "1 \<le> n"
    and "cheerio_select api (js ''.search-result'') = Inr primary"
    and "cheerio_select api (js ''.sr-group .__srgi'') = Inr grouped"
  shows "parseSearchResults_try api (Fin (of_nat n)) =
     Inr (take n (web_results api primary grouped) @ related_records (extractRelatedSearches api))"
proof -
  let ?P = "extractable (extractSearchResult api) primary"
  let ?G = "extractable (extractGroupedResult api) grouped"
  have tk: "take n ?P @ take (n - length (take n ?P)) ?G = take n (?P @ ?G)"
    by (cases "n \<le> length ?P") (simp_all add: min_def)
  have tk2: "\<not> length (take n ?P) < n \<Longrightarrow> take n ?P = take n (?P @ ?G)"
    by simp
  show ?thesis
    using assms(2,3) tk tk2
    by (simp add: parseSearchResults_try_def and_then_def each_result_limited
        web_results_def related_records_def Let_def del: take_append length_take)
qed

subsection \<open>The extractors and the records\<close>

lemma extractSearchResult_Some:
  assumes "extractSearchResult api e = Some r"
  shows "\<exists>found titleText u desc descText time timeText.
           cheerio_find api [e] (js ''.__sri_title_link'') = Inr found
         \<and> cheerio_text api (take 1 found) = Inr titleText
         \<and> cheerio_attr api (take 1 found) (js ''href'') = Inr (Some u)
         \<and> cheerio_find api [e] (js ''.__sri-desc'') = Inr desc
         \<and> cheerio_text api desc = Inr descText
         \<and> cheerio_find api [e] (js ''.__sri-time'') = Inr time
         \<and> cheerio_text api (take 1 time) = Inr timeText
         \<and> trim titleText \<noteq> [] \<and> u \<noteq> []
         \<and> r = result_object u (trim titleText) (trim descText)
                 (if trim timeText = [] then JNull else JStr (trim timeText))"
  using assms
  unfolding extractSearchResult_def extractSearchResult_try_def and_then_def Let_def jsor_def
  by (auto split: sum.splits option.splits if_splits)

lemma extractGroupedResult_Some:
  assumes "extractGroupedResult api e = Some r"
  shows "\<exists>found titleText u desc descText time timeText.
           cheerio_find api [e] (js ''.__srgi-title a'') = Inr found
         \<and> cheerio_text api (take 1 found) = Inr titleText
         \<and> cheerio_attr api (take 1 found) (js ''href'') = Inr (Some u)
         \<and> cheerio_find api [e] (js ''.__sri-desc'') = Inr desc
         \<and> cheerio_text api desc = Inr descText
         \<and> cheerio_find api [e] (js ''.__sri-time'') = Inr time
         \<and> cheerio_text api (take 1 time) = Inr timeText
         \<and> trim titleText \<noteq> [] \<and> u \<noteq> []
         \<and> r = result_object u (trim titleText) (trim descText)
                 (if trim timeText = [] then JNull else JStr (trim timeText))"
  using assms
  unfolding extractGroupedResult_def extractGroupedResult_try_def and_then_def Let_def jsor_def
  by (auto split: sum.splits option.splits if_splits)

lemma result_object_props:
  "keys (result_object u t s p) = web_result_keys"
  "get_prop (result_object u t s p) (js ''t'') = JNum (Fin 0)"
  "get_prop (result_object u t s p) (js ''url'') = JStr u"
  "get_prop (result_object u t s p) (js ''title'') = JStr t"
  "get_prop (result_object u t s p) (js ''snippet'') = JStr s"
  "get_prop (result_object u t s p) (js ''published'') = p"
  by (simp_all add: result_object_def web_result_keys_def jsor_def js_def)

lemma related_object_props:
  "get_prop (related_object terms) (js ''t'') = JNum (Fin 1)"
  "get_prop (related_object terms) (js ''list'') = JArr (map JStr terms)"
  by (simp_all add: related_object_def js_def)

lemma is_web_result_result_object: "is_web_result (result_object u t s p)"
  by (simp add: is_web_result_def result_object_props)

lemma not_web_result_related_object: "\<not> is_web_result (related_object terms)"
  by (simp add: is_web_result_def related_object_props)

lemma is_related_record_related_object: "is_related_record (related_object terms)"
  by (simp add: is_related_record_def related_object_props)

lemma not_related_record_result_object: "\<not> is_related_record (result_object u t s p)"
  by (simp add: is_related_record_def result_object_props)

lemma extractable_Some:
  "r \<in> set (extractable extract elements) \<Longrightarrow> \<exists>e \<in> set elements. extract e = Some r"
  by (auto simp: extractable_def map_filter_def)

lemma web_results_are_web:
  "r \<in> set (web_results api primary grouped) \<Longrightarrow> is_web_result r \<and> \<not> is_related_record r"
  by (auto simp: web_results_def is_web_result_result_object not_related_record_result_object
      dest!: extractable_Some extractSearchResult_Some extractGroupedResult_Some)

lemma related_records_not_web:
  "r \<in> set (related_records terms) \<Longrightarrow> \<not> is_web_result r \<and> is_related_record r"
  by (auto simp: related_records_def not_web_result_related_object is_related_record_related_object
      split: if_splits)

lemma filter_web_results:
  "filter is_web_result (take n (web_results api primary grouped) @ related_records terms)
     = take n (web_results api primary grouped)"
proof -
  have "filter is_web_result (take n (web_results api primary grouped))
          = take n (web_results api primary grouped)"
    by (rule filter_True) (auto dest: in_set_takeD web_results_are_web)
  moreover have "filter is_web_result (related_records terms) = []"
    by (rule filter_False) (auto dest: related_records_not_web)
  ultimately show ?thesis by simp
qed

lemma filter_related_records:
  "filter is_related_record (take n (web_results api primary grouped) @ related_records terms)
     = related_records terms"
proof -
  have "filter is_related_record (take n (web_results api primary grouped)) = []"
    by (rule filter_False) (auto dest: in_set_takeD web_results_are_web)
  moreover have "filter is_related_record (related_records terms) = related_records terms"
    by (rule filter_True) (auto dest: related_records_not_web)
  ultimately show ?thesis by simp
qed

lemma parseSearchResults_origin:
  assumes "parseSearchResults_try api limit = Inr rs" and "r \<in> set rs"
  shows "(\<exists>e. extractSearchResult api e = Some r) \<or> (\<exists>e. extractGroupedResult api e = Some r)
         \<or> r = related_object (extractRelatedSearches api)"
proof -
  from assms(1) obtain primary where p: "cheerio_select api (js ''.search-result'') = Inr primary"
    by (auto simp: parseSearchResults_try_def and_then_def split: sum.splits)
  obtain results1 c1 out1 where e1:
    "cheerio_each (result_callback (extractSearchResult api) limit) primary ([], 0) = ((results1, c1), out1)"
    by (metis surj_pair)
  from each_result_origin[OF e1] have o1: "out1 = Inr ()"
    and s1: "set results1 \<subseteq> {r. \<exists>e. extractSearchResult api e = Some r}" by auto
  obtain results2 where r2: "set results2 \<subseteq> {r. \<exists>e. extractSearchResult api e = Some r}
        \<union> {r. \<exists>e. extractGroupedResult api e = Some r}"
    and rs: "rs = results2 \<or> rs = results2 @ [related_object (extractRelatedSearches api)]"
  proof (cases "count_lt c1 limit")
    case False
    with assms(1) p e1 o1 have "rs = results1 \<or> rs = results1 @ [related_object (extractRelatedSearches api)]"
      by (auto simp: parseSearchResults_try_def and_then_def Let_def split: if_splits)
    with s1 that[of results1] show ?thesis by auto
  next
    case True
    with assms(1) p e1 o1 obtain grouped where
      g: "cheerio_select api (js ''.sr-group .__srgi'') = Inr grouped"
      by (auto simp: parseSearchResults_try_def and_then_def Let_def split: sum.splits)
    obtain results2 c2 out2 where e2:
      "cheerio_each (result_callback (extractGroupedResult api) limit) grouped (results1, c1)
         = ((results2, c2), out2)"
      by (metis surj_pair)
    from each_result_origin[OF e2] have o2: "out2 = Inr ()"
      and s2: "set results2 \<subseteq> set results1 \<union> {r. \<exists>e. extractGroupedResult api e = Some r}" by auto
    from True assms(1) p e1 o1 g e2 o2
    have "rs = results2 \<or> rs = results2 @ [related_object (extractRelatedSearches api)]"
      by (auto simp: parseSearchResults_try_def and_then_def Let_def split: if_splits)
    with s1 s2 that[of results2] show ?thesis by auto
  qed
  from rs r2 assms(2) show ?thesis by auto
qed

lemma parseSearchResults_Inr:
  "parseSearchResults load html limit = Inr rs \<longleftrightarrow> parseSearchResults_try (load html) limit = Inr rs"
  by (simp add: parseSearchResults_def split: sum.splits)

subsection \<open>The limit\<close>

lemma parseSearchResults_try_primary_only:
  assumes "cheerio_select api (js ''.search-result'') = Inr primary"
    and "n \<le> length (extractable (extractSearchResult api) primary)"
  shows "parseSearchResults_try api (Fin (of_nat n)) =
     Inr (take n (extractable (extractSearchResult api) primary)
          @ related_records (extractRelatedSearches api))"
  using assms
  by (simp add: parseSearchResults_try_def and_then_def each_result_limited
      related_records_def Let_def min_def)

lemma parseSearchResults_try_grouped_throw:
  assumes "cheerio_select api (js ''.search-result'') = Inr primary"
    and "length (extractable (extractSearchResult api) primary) < n"
    and "cheerio_select api (js ''.sr-group .__srgi'') = Inl x"
  shows "parseSearchResults_try api (Fin (of_nat n)) = Inl x"
  using assms
  by (simp add: parseSearchResults_try_def and_then_def each_result_limited)

lemma filter_web_primary:
  "filter is_web_result (take n (extractable (extractSearchResult api) primary) @ related_records terms)
     = take n (extractable (extractSearchResult api) primary)"
  using filter_web_results[of n api primary "[]" terms]
  by (simp add: web_results_def extractable_def map_filter_simps)

text \<open>
  C1, as amended: for a limit \<open>n \<ge> 1\<close>, the parser fails with the structural parsing
  error when the primary selection cannot be computed, or when fewer than \<open>n\<close> primary
  results are extractable and the grouped selection cannot be computed. Otherwise it
  returns the first \<open>n\<close> of the web results the document offers, primary ones before
  grouped ones, each in document order, so that the number of \<open>t = 0\<close> records is the
  minimum of \<open>n\<close> and the number of extractable elements; the grouped elements are
  consulted only when fewer than \<open>n\<close> primary results are extractable. One
  related-searches record follows as the last element, whatever \<open>n\<close> is, exactly when
  the related-search extraction yields a term. It yields all the non-empty trimmed terms
  when every related-search element can be read, and none when the related-search
  selection cannot be computed.
\<close>

theorem search_results_limited:
  assumes "1 \<le> n"
  shows "(cheerio_select (load html) (js ''.search-result'') = Inl x \<longrightarrow>
        parseSearchResults load html (Fin (of_nat n))
          = Inl (Error (js ''Failed to parse search results - unexpected HTML structure'')))
     \<and> (cheerio_select (load html) (js ''.search-result'') = Inr primary
        \<and> n \<le> length (extractable (extractSearchResult (load html)) primary) \<longrightarrow>
        parseSearchResults load html (Fin (of_nat n))
          = Inr (take n (extractable (extractSearchResult (load html)) primary)
                 @ related_records (extractRelatedSearches (load html)))
        \<and> length (filter is_web_result
             (take n (extractable (extractSearchResult (load html)) primary)
              @ related_records (extractRelatedSearches (load html)))) = n)
     \<and> (cheerio_select (load html) (js ''.search-result'') = Inr primary
        \<and> length (extractable (extractSearchResult (load html)) primary) < n
        \<and> cheerio_select (load html) (js ''.sr-group .__srgi'') = Inl y \<longrightarrow>
        parseSearchResults load html (Fin (of_nat n))
          = Inl (Error (js ''Failed to parse search results - unexpected HTML structure'')))
     \<and> (cheerio_select (load html) (js ''.search-result'') = Inr primary
        \<and> cheerio_select (load html) (js ''.sr-group .__srgi'') = Inr grouped \<longrightarrow>
        parseSearchResults load html (Fin (of_nat n))
          = Inr (take n (web_results (load html) primary grouped)
                 @ related_records (extractRelatedSearches (load html)))
        \<and> filter is_web_result
             (take n (web_results (load html) primary grouped)
              @ related_records (extractRelatedSearches (load html)))
            = take n (web_results (load html) primary grouped)
        \<and> length (filter is_web_result
             (take n (web_results (load html) primary grouped)
              @ related_records (extractRelatedSearches (load html))))
            = min n (length (web_results (load html) primary grouped))
        \<and> filter is_related_record
             (take n (web_results (load html) primary grouped)
              @ related_records (extractRelatedSearches (load html)))
            = related_records (extractRelatedSearches (load html)))
     \<and> (cheerio_select (load html) (js ''.related-searches a span'') = Inr related
        \<and> map (\<lambda>e. cheerio_text (load html) [e]) related = map Inr texts \<longrightarrow>
        extractRelatedSearches (load html) = related_terms texts)
     \<and> (cheerio_select (load html) (js ''.related-searches a span'') = Inl z \<longrightarrow>
        extractRelatedSearches (load html) = [])"
proof (intro conjI impI)
  assume "cheerio_select (load html) (js ''.search-result'') = Inl x"
  then show "parseSearchResults load html (Fin (of_nat n))
          = Inl (Error (js ''Failed to parse search results - unexpected HTML structure''))"
    by (simp add: parseSearchResults_def parseSearchResults_try_def and_then_def)
next
  assume h: "cheerio_select (load html) (js ''.search-result'') = Inr primary
        \<and> n \<le> length (extractable (extractSearchResult (load html)) primary)"
  from parseSearchResults_try_primary_only[OF h[THEN conjunct1] h[THEN conjunct2]]
  show "parseSearchResults load html (Fin (of_nat n))
          = Inr (take n (extractable (extractSearchResult (load html)) primary)
                 @ related_records (extractRelatedSearches (load html)))"
    by (simp add: parseSearchResults_def)
  from h show "length (filter is_web_result
             (take n (extractable (extractSearchResult (load html)) primary)
              @ related_records (extractRelatedSearches (load html)))) = n"
    by (simp only: filter_web_primary) simp
next
  assume h: "cheerio_select (load html) (js ''.search-result'') = Inr primary
        \<and> length (extractable (extractSearchResult (load html)) primary) < n
        \<and> cheerio_select (load html) (js ''.sr-group .__srgi'') = Inl y"
  from parseSearchResults_try_grouped_throw[OF h[THEN conjunct1] h[THEN conjunct2, THEN conjunct1]
      h[THEN conjunct2, THEN conjunct2]]
  show "parseSearchResults load html (Fin (of_nat n))
          = Inl (Error (js ''Failed to parse search results - unexpected HTML structure''))"
    by (simp add: parseSearchResults_def)
next
  assume h: "cheerio_select (load html) (js ''.search-result'') = Inr primary
        \<and> cheerio_select (load html) (js ''.sr-group .__srgi'') = Inr grouped"
  from parseSearchResults_try_limited[OF assms h[THEN conjunct1] h[THEN conjunct2]]
  show "parseSearchResults load html (Fin (of_nat n))
          = Inr (take n (web_results (load html) primary grouped)
                 @ related_records (extractRelatedSearches (load html)))"
    by (simp add: parseSearchResults_def)
  show w: "filter is_web_result
             (take n (web_results (load html) primary grouped)
              @ related_records (extractRelatedSearches (load html)))
            = take n (web_results (load html) primary grouped)"
    by (rule filter_web_results)
  show "length (filter is_web_result
             (take n (web_results (load html) primary grouped)
              @ related_records (extractRelatedSearches (load html))))
            = min n (length (web_results (load html) primary grouped))"
    by (simp only: w) (simp add: min.commute)
  show "filter is_related_record
             (take n (web_results (load html) primary grouped)
              @ related_records (extractRelatedSearches (load html)))
            = related_records (extractRelatedSearches (load html))"
    by (rule filter_related_records)
next
  assume h: "cheerio_select (load html) (js ''.related-searches a span'') = Inr related
        \<and> map (\<lambda>e. cheerio_text (load html) [e]) related = map Inr texts"
  show "extractRelatedSearches (load html) = related_terms texts"
    by (rule extractRelatedSearches_all[OF h[THEN conjunct1] h[THEN conjunct2]])
next
  assume "cheerio_select (load html) (js ''.related-searches a span'') = Inl z"
  then show "extractRelatedSearches (load html) = []"
    by (simp add: extractRelatedSearches_def)
qed

lemmas fixture_eval = fixture_document_def extractSearchResult_def extractSearchResult_try_def
  extractGroupedResult_def extractGroupedResult_try_def and_then_def Let_def jsor_def
  extractable_def map_filter_simps web_results_def related_terms_def related_records_def
  trim_def is_ws_def js_def

lemma example_web_results:
  "web_results example_document example_primary example_grouped
  = [result_object (js ''http://a'') (js ''A'') (js ''about a'') JNull,
     result_object (js ''http://b'') (js ''B'') [] (JStr (js ''2020'')),
     result_object (js ''http://c'') (js ''C'') [] JNull]"
  by (simp add: example_document_def example_primary_def example_grouped_def fixture_eval)

text \<open>
  Three primary elements of which two are extractable, one grouped element, three
  non-empty related terms and limit 2: two web results and the related searches. A
  document whose primary selection cannot be computed: the structural parsing error.
\<close>

theorem search_results_limited_witness:
  "(1::nat) \<le> 2
   \<and> cheerio_select example_document (js ''.search-result'') = Inr example_primary
   \<and> cheerio_select example_document (js ''.sr-group .__srgi'') = Inr example_grouped
   \<and> extractRelatedSearches example_document = [js ''x'', js ''y'', js ''z'']
   \<and> parseSearchResults (\<lambda>html. example_document) (js ''<html>'') (Fin 2)
     = Inr [result_object (js ''http://a'') (js ''A'') (js ''about a'') JNull,
            result_object (js ''http://b'') (js ''B'') [] (JStr (js ''2020'')),
            related_object [js ''x'', js ''y'', js ''z'']]
   \<and> parseSearchResults (\<lambda>html. broken_document) (js ''<html>'') (Fin 2)
     = Inl (Error (js ''Failed to parse search results - unexpected HTML structure''))"
proof -
  have 1: "(1::nat) \<le> 2" by simp
  have 2: "cheerio_select ((\<lambda>html. example_document) (js ''<html>'')) (js ''.search-result'')
             = Inr example_primary"
    by (simp add: example_document_def fixture_document_def)
  have 3: "cheerio_select ((\<lambda>html. example_document) (js ''<html>'')) (js ''.sr-group .__srgi'')
             = Inr example_grouped"
    by (simp add: example_document_def fixture_document_def js_def)
  have 4: "cheerio_select ((\<lambda>html. example_document) (js ''<html>'')) (js ''.related-searches a span'')
             = Inr example_related"
    by (simp add: example_document_def fixture_document_def js_def)
  have 5: "map (\<lambda>e. cheerio_text ((\<lambda>html. example_document) (js ''<html>'')) [e]) example_related
             = map Inr [js ''x'', js '' '', js ''y'', js ''z'']"
    by (simp add: example_document_def fixture_document_def example_related_def)
  have 6: "related_terms [js ''x'', js '' '', js ''y'', js ''z''] = [js ''x'', js ''y'', js ''z'']"
    by (simp add: related_terms_def trim_def is_ws_def js_def)
  note t = search_results_limited[OF 1, where load = "\<lambda>html. example_document"
      and html = "js ''<html>''" and primary = example_primary and grouped = example_grouped
      and related = example_related and texts = "[js ''x'', js '' '', js ''y'', js ''z'']"]
  from t 4 5 have r: "extractRelatedSearches example_document = [js ''x'', js ''y'', js ''z'']"
    by (simp add: 6)
  from t 2 3 have p: "parseSearchResults (\<lambda>html. example_document) (js ''<html>'') (Fin 2)
     = Inr (take 2 (web_results example_document example_primary example_grouped)
            @ related_records (extractRelatedSearches example_document))"
    by simp
  have b: "cheerio_select ((\<lambda>html. broken_document) (js ''<html>'')) (js ''.search-result'') = Inl Exn"
    by (simp add: broken_document_def)
  from search_results_limited[OF 1, where load = "\<lambda>html. broken_document"
      and html = "js ''<html>''" and x = Exn] b
  have f: "parseSearchResults (\<lambda>html. broken_document) (js ''<html>'') (Fin 2)
     = Inl (Error (js ''Failed to parse search results - unexpected HTML structure''))"
    by simp
  from 2 3 r p f show ?thesis
    by (simp add: example_web_results related_records_def)
qed

lemma unreadable_web_results:
  "web_results unreadable_document example_primary example_grouped
  = [result_object (js ''http://a'') (js ''A'') (js ''about a'') JNull,
     result_object (js ''http://b'') (js ''B'') [] (JStr (js ''2020'')),
     result_object (js ''http://c'') (js ''C'') [] JNull]"
  by (simp add: unreadable_document_def example_primary_def example_grouped_def fixture_eval)

lemma unreadable_related_searches: "extractRelatedSearches unreadable_document = []"
  by (simp add: unreadable_document_def unreadable_related_def fixture_document_def
      extractRelatedSearches_def related_callback_def js_def)

text \<open>
  C1 as stated fails at a document whose related searches are an element whose text
  cannot be read and then the term \<open>bar\<close>: the document has a non-empty related term,
  and the result has no related-searches record.
\<close>

theorem related_term_unread_counterexample:
  "cheerio_select unreadable_document (js ''.related-searches a span'')
     = Inr [Broken, Term (js ''bar'')]
   \<and> cheerio_text unreadable_document [Term (js ''bar'')] = Inr (js ''bar'')
   \<and> related_terms [js ''bar''] = [js ''bar'']
   \<and> parseSearchResults (\<lambda>html. unreadable_document) (js ''<html>'') (Fin 2)
     = Inr [result_object (js ''http://a'') (js ''A'') (js ''about a'') JNull,
            result_object (js ''http://b'') (js ''B'') [] (JStr (js ''2020''))]"
proof -
  have s: "cheerio_select unreadable_document (js ''.search-result'') = Inr example_primary"
    "cheerio_select unreadable_document (js ''.sr-group .__srgi'') = Inr example_grouped"
    "cheerio_select unreadable_document (js ''.related-searches a span'')
       = Inr [Broken, Term (js ''bar'')]"
    "cheerio_text unreadable_document [Term (js ''bar'')] = Inr (js ''bar'')"
    by (simp_all add: unreadable_document_def unreadable_related_def fixture_document_def js_def)
  have t: "related_terms [js ''bar''] = [js ''bar'']"
    by (simp add: related_terms_def trim_def is_ws_def js_def)
  have "parseSearchResults_try unreadable_document (Fin (of_nat 2))
     = Inr (take 2 (web_results unreadable_document example_primary example_grouped)
            @ related_records (extractRelatedSearches unreadable_document))"
    by (rule parseSearchResults_try_limited[OF _ s(1,2)]) simp
  then have "parseSearchResults (\<lambda>html. unreadable_document) (js ''<html>'') (Fin 2)
     = Inr [result_object (js ''http://a'') (js ''A'') (js ''about a'') JNull,
            result_object (js ''http://b'') (js ''B'') [] (JStr (js ''2020''))]"
    by (simp add: parseSearchResults_def unreadable_web_results unreadable_related_searches
        related_records_def)
  with s(3,4) t show ?thesis by (simp only: simp_thms)
qed

subsection \<open>Incomplete elements\<close>






lemma extractSearchResult_shape:
  assumes "extractSearchResult api e = Some r"
  shows "\<exists>u t s p. r = result_object u t s p \<and> u \<noteq> [] \<and> t \<noteq> []
           \<and> (p = JNull \<or> (\<exists>x. p = JStr x \<and> x \<noteq> []))"
proof -
  from extractSearchResult_Some[OF assms] obtain titleText u descText timeText where
    "trim titleText \<noteq> []" "u \<noteq> []"
    "r = result_object u (trim titleText) (trim descText)
           (if trim timeText = [] then JNull else JStr (trim timeText))"
    by blast
  then show ?thesis
    by (intro exI[of _ u] exI[of _ "trim titleText"] exI[of _ "trim descText"]
        exI[of _ "if trim timeText = [] then JNull else JStr (trim timeText)"]) simp
qed

lemma extractGroupedResult_shape:
  assumes "extractGroupedResult api e = Some r"
  shows "\<exists>u t s p. r = result_object u t s p \<and> u \<noteq> [] \<and> t \<noteq> []
           \<and> (p = JNull \<or> (\<exists>x. p = JStr x \<and> x \<noteq> []))"
proof -
  from extractGroupedResult_Some[OF assms] obtain titleText u descText timeText where
    "trim titleText \<noteq> []" "u \<noteq> []"
    "r = result_object u (trim titleText) (trim descText)
           (if trim timeText = [] then JNull else JStr (trim timeText))"
    by blast
  then show ?thesis
    by (intro exI[of _ u] exI[of _ "trim titleText"] exI[of _ "trim descText"]
        exI[of _ "if trim timeText = [] then JNull else JStr (trim timeText)"]) simp
qed

lemma web_result_url_title:
  assumes "parseSearchResults load html limit = Inr rs" and "r \<in> set rs" and "is_web_result r"
  shows "\<exists>u t s p. r = result_object u t s p \<and> u \<noteq> [] \<and> t \<noteq> []
           \<and> (p = JNull \<or> (\<exists>x. p = JStr x \<and> x \<noteq> []))"
proof -
  from assms(1) have "parseSearchResults_try (load html) limit = Inr rs"
    by (simp add: parseSearchResults_Inr)
  from parseSearchResults_origin[OF this assms(2)] assms(3)
  consider e where "extractSearchResult (load html) e = Some r"
    | e where "extractGroupedResult (load html) e = Some r"
    using not_web_result_related_object by auto
  then show ?thesis
    by cases (erule extractSearchResult_shape, erule extractGroupedResult_shape)
qed



lemma example_selects:
  "cheerio_select example_document (js ''.search-result'') = Inr example_primary"
  "cheerio_select example_document (js ''.sr-group .__srgi'') = Inr example_grouped"
  "cheerio_select example_document (js ''.related-searches a span'') = Inr example_related"
  by (simp_all add: example_document_def fixture_document_def js_def)

lemma example_related_terms:
  "extractRelatedSearches example_document = [js ''x'', js ''y'', js ''z'']"
proof -
  have "map (\<lambda>e. cheerio_text example_document [e]) example_related
          = map Inr [js ''x'', js '' '', js ''y'', js ''z'']"
    by (simp add: example_document_def fixture_document_def example_related_def)
  from extractRelatedSearches_all[OF example_selects(3) this] show ?thesis
    by (simp add: related_terms_def trim_def is_ws_def js_def)
qed

lemma example_parse:
  "parseSearchResults (\<lambda>html. example_document) (js ''<html>'') (Fin 2)
     = Inr [result_object (js ''http://a'') (js ''A'') (js ''about a'') JNull,
            result_object (js ''http://b'') (js ''B'') [] (JStr (js ''2020'')),
            related_object [js ''x'', js ''y'', js ''z'']]"
proof -
  have "parseSearchResults_try example_document (Fin (of_nat 2))
     = Inr (take 2 (web_results example_document example_primary example_grouped)
            @ related_records (extractRelatedSearches example_document))"
    by (rule parseSearchResults_try_limited[OF _ example_selects(1,2)]) simp
  then show ?thesis
    by (simp add: parseSearchResults_def example_web_results example_related_terms
        related_records_def)
qed





subsection \<open>The shape of a web result\<close>

text \<open>
  C9: a web result of the output has exactly the keys \<open>t\<close>, \<open>url\<close>, \<open>title\<close>, \<open>snippet\<close>
  and \<open>published\<close>; its \<open>snippet\<close> is a string and its \<open>published\<close> is \<open>null\<close> or a
  non-empty string. For either extractor, the \<open>snippet\<close> is the trimmed text of the
  description, so the empty string when there is none, and \<open>published\<close> is the trimmed
  text of the first time stamp when that is not empty, and \<open>null\<close> otherwise.
\<close>

theorem web_result_shape:
  "(parseSearchResults load html limit = Inr rs \<and> r \<in> set rs \<and> is_web_result r \<longrightarrow>
      keys r = web_result_keys
      \<and> is_string (get_prop r (js ''snippet''))
      \<and> (get_prop r (js ''published'') = JNull
          \<or> nonempty_string (get_prop r (js ''published''))))
   \<and> (extractSearchResult api e = Some r' \<or> extractGroupedResult api e = Some r' \<longrightarrow>
      (\<exists>desc descText time timeText.
          cheerio_find api [e] (js ''.__sri-desc'') = Inr desc
        \<and> cheerio_text api desc = Inr descText
        \<and> cheerio_find api [e] (js ''.__sri-time'') = Inr time
        \<and> cheerio_text api (take 1 time) = Inr timeText
        \<and> get_prop r' (js ''snippet'') = JStr (trim descText)
        \<and> get_prop r' (js ''published'')
            = (if trim timeText = [] then JNull else JStr (trim timeText))))"
proof (intro conjI impI)
  assume a: "parseSearchResults load html limit = Inr rs \<and> r \<in> set rs \<and> is_web_result r"
  then have a1: "parseSearchResults load html limit = Inr rs" and a2: "r \<in> set rs"
    and a3: "is_web_result r"
    by simp_all
  from web_result_url_title[OF a1 a2 a3] obtain u t s p where
    r: "r = result_object u t s p" and p: "p = JNull \<or> (\<exists>x. p = JStr x \<and> x \<noteq> [])"
    by (elim exE conjE)
  show "keys r = web_result_keys" by (simp add: r result_object_props)
  show "is_string (get_prop r (js ''snippet''))" by (simp add: r result_object_props)
  from p show "get_prop r (js ''published'') = JNull
          \<or> nonempty_string (get_prop r (js ''published''))"
    by (auto simp: r result_object_props)
next
  assume "extractSearchResult api e = Some r' \<or> extractGroupedResult api e = Some r'"
  then obtain desc descText time timeText u t where
    "cheerio_find api [e] (js ''.__sri-desc'') = Inr desc"
    "cheerio_text api desc = Inr descText"
    "cheerio_find api [e] (js ''.__sri-time'') = Inr time"
    "cheerio_text api (take 1 time) = Inr timeText"
    "r' = result_object u t (trim descText)
            (if trim timeText = [] then JNull else JStr (trim timeText))"
  proof
    assume "extractSearchResult api e = Some r'"
    from extractSearchResult_Some[OF this] that show ?thesis by blast
  next
    assume "extractGroupedResult api e = Some r'"
    from extractGroupedResult_Some[OF this] that show ?thesis by blast
  qed
  then show "\<exists>desc descText time timeText.
          cheerio_find api [e] (js ''.__sri-desc'') = Inr desc
        \<and> cheerio_text api desc = Inr descText
        \<and> cheerio_find api [e] (js ''.__sri-time'') = Inr time
        \<and> cheerio_text api (take 1 time) = Inr timeText
        \<and> get_prop r' (js ''snippet'') = JStr (trim descText)
        \<and> get_prop r' (js ''published'')
            = (if trim timeText = [] then JNull else JStr (trim timeText))"
    by (intro exI[of _ desc] exI[of _ descText] exI[of _ time] exI[of _ timeText])
       (simp add: result_object_props)
qed

lemma example_extract_first:
  "extractSearchResult example_document
     (Hit (js ''A'') (Some (js ''http://a'')) (js '' about a '') [])
   = Some (result_object (js ''http://a'') (js ''A'') (js ''about a'') JNull)"
  by (simp add: example_document_def fixture_document_def extractSearchResult_def
      extractSearchResult_try_def and_then_def Let_def jsor_def trim_def is_ws_def js_def)

text \<open>
  The second result of the example document has no description and the time stamp
  \<open>2020\<close>; the first has a description and no time stamp.
\<close>

theorem web_result_shape_witness:
  "is_web_result (result_object (js ''http://b'') (js ''B'') [] (JStr (js ''2020'')))
   \<and> keys (result_object (js ''http://b'') (js ''B'') [] (JStr (js ''2020''))) = web_result_keys
   \<and> get_prop (result_object (js ''http://b'') (js ''B'') [] (JStr (js ''2020''))) (js ''snippet'')
       = JStr []
   \<and> nonempty_string
        (get_prop (result_object (js ''http://b'') (js ''B'') [] (JStr (js ''2020''))) (js ''published''))
   \<and> get_prop (result_object (js ''http://a'') (js ''A'') (js ''about a'') JNull) (js ''snippet'')
       = JStr (js ''about a'')
   \<and> get_prop (result_object (js ''http://a'') (js ''A'') (js ''about a'') JNull) (js ''published'')
       = JNull"
proof -
  let ?a = "result_object (js ''http://a'') (js ''A'') (js ''about a'') JNull"
  let ?b = "result_object (js ''http://b'') (js ''B'') [] (JStr (js ''2020''))"
  let ?rs = "[?a, ?b, related_object [js ''x'', js ''y'', js ''z'']]"
  have w: "is_web_result ?b" by (rule is_web_result_result_object)
  have 1: "keys ?b = web_result_keys \<and> is_string (get_prop ?b (js ''snippet''))
      \<and> (get_prop ?b (js ''published'') = JNull \<or> nonempty_string (get_prop ?b (js ''published'')))"
    using web_result_shape
      [of "\<lambda>html. example_document" "js ''<html>''" "Fin 2" ?rs ?b, THEN conjunct1]
      example_parse w
    by simp
  have 2: "\<exists>desc descText time timeText.
          cheerio_find example_document [Hit (js ''A'') (Some (js ''http://a'')) (js '' about a '') []]
            (js ''.__sri-desc'') = Inr desc
        \<and> cheerio_text example_document desc = Inr descText
        \<and> cheerio_find example_document [Hit (js ''A'') (Some (js ''http://a'')) (js '' about a '') []]
            (js ''.__sri-time'') = Inr time
        \<and> cheerio_text example_document (take 1 time) = Inr timeText
        \<and> get_prop ?a (js ''snippet'') = JStr (trim descText)
        \<and> get_prop ?a (js ''published'')
            = (if trim timeText = [] then JNull else JStr (trim timeText))"
    using web_result_shape
      [where api = example_document
         and e = "Hit (js ''A'') (Some (js ''http://a'')) (js '' about a '') []" and r' = ?a,
       THEN conjunct2]
      example_extract_first
    by simp
  have 3: "get_prop ?a (js ''snippet'') = JStr (js ''about a'')"
    "get_prop ?a (js ''published'') = JNull"
    "get_prop ?b (js ''snippet'') = JStr []"
    "get_prop ?b (js ''published'') = JStr (js ''2020'')"
    by (simp_all add: result_object_props)
  from w 1 2 3 show ?thesis by (simp add: js_def)
qed

subsection \<open>Exceptions during traversal\<close>

text \<open>
  C10, at a document whose related searches are \<open>foo\<close>, an element whose text cannot be
  read, and \<open>bar\<close>: the extractor returns the term collected before the exception, not
  the empty list, and the related-searches record is in the result. The comment in the
  empty \<open>catch\<close> block says that the empty array is returned.
\<close>

theorem related_searches_partial_after_throw:
  "cheerio_select throwing_document (js ''.related-searches a span'')
     = Inr [Term (js ''foo''), Broken, Term (js ''bar'')]
   \<and> cheerio_text throwing_document [Term (js ''foo'')] = Inr (js ''foo'')
   \<and> cheerio_text throwing_document [Broken] = Inl Exn
   \<and> extractRelatedSearches throwing_document = [js ''foo'']
   \<and> parseSearchResults (\<lambda>html. throwing_document) (js ''<html>'') (Fin 10)
       = Inr [related_object [js ''foo'']]"
  by (simp add: throwing_document_def throwing_related_def fixture_document_def
      parseSearchResults_def parseSearchResults_try_def and_then_def Let_def
      extractRelatedSearches_def related_callback_def trim_def is_ws_def js_def)

lemma related_select_throw:
  "cheerio_select api (js ''.related-searches a span'') = Inl x \<Longrightarrow> extractRelatedSearches api = []"
  by (simp add: extractRelatedSearches_def)

lemma primary_select_throw:
  "cheerio_select (load html) (js ''.search-result'') = Inl x \<Longrightarrow>
   parseSearchResults load html limit
     = Inl (Error (js ''Failed to parse search results - unexpected HTML structure''))"
  by (simp add: parseSearchResults_def parseSearchResults_try_def and_then_def)

lemma grouped_select_throw:
  assumes "cheerio_select (load html) (js ''.search-result'') = Inr primary"
    and "cheerio_select (load html) (js ''.sr-group .__srgi'') = Inl x"
    and "1 \<le> n" and "length (extractable (extractSearchResult (load html)) primary) < n"
  shows "parseSearchResults load html (Fin (of_nat n))
     = Inl (Error (js ''Failed to parse search results - unexpected HTML structure''))"
  using assms
  by (simp add: parseSearchResults_def parseSearchResults_try_def and_then_def
      each_result_limited)

lemma related_failure_harmless:
  assumes "cheerio_select (load html) (js ''.search-result'') = Inr primary"
    and "cheerio_select (load html) (js ''.sr-group .__srgi'') = Inr grouped"
  shows "\<exists>rs. parseSearchResults load html limit = Inr rs"
proof -
  obtain results1 c1 out1 where e1:
    "cheerio_each (result_callback (extractSearchResult (load html)) limit) primary ([], 0)
       = ((results1, c1), out1)"
    by (metis surj_pair)
  from each_result_origin[OF e1] have o1: "out1 = Inr ()" by simp
  obtain results2 c2 out2 where e2:
    "cheerio_each (result_callback (extractGroupedResult (load html)) limit) grouped (results1, c1)
       = ((results2, c2), out2)"
    by (metis surj_pair)
  from each_result_origin[OF e2] have o2: "out2 = Inr ()" by simp
  show ?thesis
    using assms e1 o1 e2 o2
    by (cases "count_lt c1 limit")
       (simp_all add: parseSearchResults_def parseSearchResults_try_def and_then_def Let_def)
qed

subsection \<open>Validation\<close>

lemma nonempty_string_iff: "nonempty_string v \<longleftrightarrow> truthy v \<and> is_string v"
  by (cases v) simp_all

lemma Number_isInteger_Fin: "Number_isInteger (Fin q) \<longleftrightarrow> q \<in> \<int>"
proof
  assume "Number_isInteger (Fin q)"
  then have "of_int \<lfloor>q\<rfloor> = q" by simp
  then show "q \<in> \<int>" by (metis Ints_of_int)
next
  assume "q \<in> \<int>"
  then show "Number_isInteger (Fin q)" by (auto elim: Ints_cases)
qed

lemma limit_rejected_iff:
  "limit \<noteq> JUndefined \<Longrightarrow> limit_rejected limit \<longleftrightarrow> \<not> positive_integer limit"
proof (cases limit)
  case (JNum n)
  show ?thesis
  proof (cases n)
    case (Fin q)
    have "limit_rejected (JNum (Fin q)) \<longleftrightarrow> q < 1 \<or> q \<notin> \<int>"
      using Number_isInteger_Fin[of q] by simp
    with JNum Fin show ?thesis by auto
  qed (simp_all add: JNum)
qed simp_all

lemma default_limit: "default_to JUndefined (JNum (Fin 10)) = JNum (Fin 10)"
  "limit \<noteq> JUndefined \<Longrightarrow> default_to limit (JNum (Fin 10)) = limit"
  "default_to (JNum n) d = JNum n"
  by (simp_all add: default_to_def)

text \<open>
  C7, as amended: \<open>search\<close> rejects, without sending a request, a query or a token
  that is not a non-empty string and a limit that is given and is not a positive
  integer, and an omitted limit is the limit 10; \<open>summarize\<close> rejects, without sending
  a request, an input or a token that is not a non-empty string, a type that is neither
  \<open>summary\<close> nor \<open>takeaway\<close>, and a language outside the supported set. Each message
  names the first constraint that is violated, except that for an unsupported language
  whose conversion to a string throws the rejection is the TypeError of the conversion.
\<close>

theorem invalid_arguments_rejected:
  "(\<not> nonempty_string query \<longrightarrow>
      search env query token limit
        = ([], Inl (Error (js ''Search query is required and must be a string''))))
   \<and> (nonempty_string query \<and> \<not> nonempty_string token \<longrightarrow>
      search env query token limit
        = ([], Inl (Error (js ''Session token is required and must be a string''))))
   \<and> (nonempty_string query \<and> nonempty_string token \<and> limit \<noteq> JUndefined
        \<and> \<not> positive_integer limit \<longrightarrow>
      search env query token limit = ([], Inl (Error (js ''Limit must be a positive integer''))))
   \<and> search env query token JUndefined = search env query token (JNum (Fin 10))
   \<and> (\<not> nonempty_string input \<longrightarrow>
      summarize env input token options
        = ([], Inl (Error (js ''Input is required and must be a string''))))
   \<and> (nonempty_string input \<and> \<not> nonempty_string token \<longrightarrow>
      summarize env input token options
        = ([], Inl (Error (js ''Session token is required and must be a string''))))
   \<and> (nonempty_string input \<and> nonempty_string token
        \<and> option_type options \<noteq> JStr (js ''summary'')
        \<and> option_type options \<noteq> JStr (js ''takeaway'') \<longrightarrow>
      summarize env input token options
        = ([], Inl (Error (js ''Type must be '' @ apostrophe @ js ''summary'' @ apostrophe
                           @ js '' or '' @ apostrophe @ js ''takeaway'' @ apostrophe))))
   \<and> (nonempty_string input \<and> nonempty_string token
        \<and> (option_type options = JStr (js ''summary'') \<or> option_type options = JStr (js ''takeaway''))
        \<and> option_language options \<notin> JStr ` set SUPPORTED_LANGUAGES \<longrightarrow>
      summarize env input token options
        = ([], Inl (case to_string (Number_toString env) (option_language options) of
                      Inr code \<Rightarrow>
                        Error (js ''Unsupported language code '' @ apostrophe @ code @ apostrophe
                               @ js ''. Supported languages: ''
                               @ join (js '', '') SUPPORTED_LANGUAGES)
                    | Inl e \<Rightarrow> e)))"
proof (intro conjI impI)
  assume "\<not> nonempty_string query"
  then show "search env query token limit
        = ([], Inl (Error (js ''Search query is required and must be a string'')))"
    by (simp add: search_def nonempty_string_iff Let_def)
next
  assume "nonempty_string query \<and> \<not> nonempty_string token"
  then show "search env query token limit
        = ([], Inl (Error (js ''Session token is required and must be a string'')))"
    by (simp add: search_def nonempty_string_iff Let_def)
next
  assume h: "nonempty_string query \<and> nonempty_string token \<and> limit \<noteq> JUndefined
        \<and> \<not> positive_integer limit"
  then have "limit_rejected (default_to limit (JNum (Fin 10)))"
    by (simp add: default_limit limit_rejected_iff)
  with h show "search env query token limit = ([], Inl (Error (js ''Limit must be a positive integer'')))"
    by (simp add: search_def nonempty_string_iff Let_def)
next
  show "search env query token JUndefined = search env query token (JNum (Fin 10))"
    by (simp only: search_def default_limit(1,3))
next
  assume "\<not> nonempty_string input"
  then show "summarize env input token options
        = ([], Inl (Error (js ''Input is required and must be a string'')))"
    by (simp add: summarize_def nonempty_string_iff)
next
  assume "nonempty_string input \<and> \<not> nonempty_string token"
  then show "summarize env input token options
        = ([], Inl (Error (js ''Session token is required and must be a string'')))"
    by (simp add: summarize_def nonempty_string_iff)
next
  assume "nonempty_string input \<and> nonempty_string token
        \<and> option_type options \<noteq> JStr (js ''summary'')
        \<and> option_type options \<noteq> JStr (js ''takeaway'')"
  then show "summarize env input token options
        = ([], Inl (Error (js ''Type must be '' @ apostrophe @ js ''summary'' @ apostrophe
                           @ js '' or '' @ apostrophe @ js ''takeaway'' @ apostrophe)))"
    by (simp add: summarize_def nonempty_string_iff Let_def option_type_def)
next
  assume "nonempty_string input \<and> nonempty_string token
        \<and> (option_type options = JStr (js ''summary'') \<or> option_type options = JStr (js ''takeaway''))
        \<and> option_language options \<notin> JStr ` set SUPPORTED_LANGUAGES"
  then show "summarize env input token options
        = ([], Inl (case to_string (Number_toString env) (option_language options) of
                      Inr code \<Rightarrow>
                        Error (js ''Unsupported language code '' @ apostrophe @ code @ apostrophe
                               @ js ''. Supported languages: ''
                               @ join (js '', '') SUPPORTED_LANGUAGES)
                    | Inl e \<Rightarrow> e))"
    by (auto simp: summarize_def nonempty_string_iff Let_def option_type_def option_language_def
        split: sum.splits)
qed

text \<open>
  The limits 0 and 1.5, an empty query, a missing token, a number as input, the type
  \<open>brief\<close> and the language \<open>XX\<close>.
\<close>

theorem invalid_arguments_rejected_witness:
  "\<not> positive_integer (JNum (Fin 0))
   \<and> \<not> positive_integer (JNum (Fin (3 / 2)))
   \<and> search (fixture_env (ok_response []) broken_document)
        (JStr (js ''kagi'')) (JStr (js ''token'')) (JNum (Fin 0))
       = ([], Inl (Error (js ''Limit must be a positive integer'')))
   \<and> search (fixture_env (ok_response []) broken_document)
        (JStr (js ''kagi'')) (JStr (js ''token'')) (JNum (Fin (3 / 2)))
       = ([], Inl (Error (js ''Limit must be a positive integer'')))
   \<and> search (fixture_env (ok_response []) broken_document)
        (JStr []) (JStr (js ''token'')) JUndefined
       = ([], Inl (Error (js ''Search query is required and must be a string'')))
   \<and> search (fixture_env (ok_response []) broken_document)
        (JStr (js ''kagi'')) JUndefined JUndefined
       = ([], Inl (Error (js ''Session token is required and must be a string'')))
   \<and> summarize (fixture_env (ok_response []) broken_document)
        (JNum (Fin 7)) (JStr (js ''token'')) JUndefined
       = ([], Inl (Error (js ''Input is required and must be a string'')))
   \<and> summarize (fixture_env (ok_response []) broken_document)
        (JStr (js ''text'')) (JStr []) JUndefined
       = ([], Inl (Error (js ''Session token is required and must be a string'')))
   \<and> summarize (fixture_env (ok_response []) broken_document)
        (JStr (js ''text'')) (JStr (js ''token'')) (JObj [(js ''type'', JStr (js ''brief''))])
       = ([], Inl (Error (js ''Type must be '' @ apostrophe @ js ''summary'' @ apostrophe
                          @ js '' or '' @ apostrophe @ js ''takeaway'' @ apostrophe)))
   \<and> summarize (fixture_env (ok_response []) broken_document)
        (JStr (js ''text'')) (JStr (js ''token'')) (JObj [(js ''language'', JStr (js ''XX''))])
       = ([], Inl (Error (js ''Unsupported language code '' @ apostrophe @ js ''XX'' @ apostrophe
            @ js ''. Supported languages: BG, CS, DA, DE, EL, EN, ES, ET, FI, FR, HU, ID, IT, JA, KO, LT, LV, NB, NL, PL, PT, RO, RU, SK, SL, SV, TR, UK, ZH, ZH-HANT'')))"
proof -
  let ?env = "fixture_env (ok_response []) broken_document"
  let ?q = "JStr (js ''kagi'')" and ?t = "JStr (js ''token'')" and ?i = "JStr (js ''text'')"
  have str: "nonempty_string ?q" "nonempty_string ?t" "nonempty_string ?i"
    "\<not> nonempty_string (JStr [])" "\<not> nonempty_string JUndefined" "\<not> nonempty_string (JNum (Fin 7))"
    by (simp_all add: js_def)
  have n0: "\<not> positive_integer (JNum (Fin 0))" by simp
  have n15: "\<not> positive_integer (JNum (Fin (3 / 2)))"
  proof
    assume "positive_integer (JNum (Fin (3 / 2)))"
    then have "(3 / 2 :: rat) \<in> \<int>" by simp
    then obtain k :: int where "(3 / 2 :: rat) = of_int k" by (auto elim: Ints_cases)
    then have "(of_int (2 * k) :: rat) = of_int 3" by simp
    then have "2 * k = 3" by (simp only: of_int_eq_iff)
    then show False by presburger
  qed
  have l0: "search ?env ?q ?t (JNum (Fin 0)) = ([], Inl (Error (js ''Limit must be a positive integer'')))"
    using invalid_arguments_rejected[of ?q ?env ?t "JNum (Fin 0)", THEN conjunct2, THEN conjunct2,
        THEN conjunct1] str n0
    by simp
  have l15: "search ?env ?q ?t (JNum (Fin (3 / 2)))
      = ([], Inl (Error (js ''Limit must be a positive integer'')))"
    using invalid_arguments_rejected[of ?q ?env ?t "JNum (Fin (3 / 2))", THEN conjunct2,
        THEN conjunct2, THEN conjunct1] str n15
    by simp
  have q: "search ?env (JStr []) ?t JUndefined
      = ([], Inl (Error (js ''Search query is required and must be a string'')))"
    using invalid_arguments_rejected[of "JStr []" ?env ?t JUndefined, THEN conjunct1] str
    by simp
  have t: "search ?env ?q JUndefined JUndefined
      = ([], Inl (Error (js ''Session token is required and must be a string'')))"
    using invalid_arguments_rejected[of ?q ?env JUndefined JUndefined, THEN conjunct2,
        THEN conjunct1] str
    by simp
  have i: "summarize ?env (JNum (Fin 7)) ?t JUndefined
      = ([], Inl (Error (js ''Input is required and must be a string'')))"
    using invalid_arguments_rejected[where env = ?env and input = "JNum (Fin 7)" and token = ?t
        and options = JUndefined] str
    by simp
  have st: "summarize ?env ?i (JStr []) JUndefined
      = ([], Inl (Error (js ''Session token is required and must be a string'')))"
    using invalid_arguments_rejected[where env = ?env and input = ?i and token = "JStr []"
        and options = JUndefined] str
    by simp
  have ty: "option_type (JObj [(js ''type'', JStr (js ''brief''))]) = JStr (js ''brief'')"
    "JStr (js ''brief'') \<noteq> JStr (js ''summary'')" "JStr (js ''brief'') \<noteq> JStr (js ''takeaway'')"
    by (simp_all add: option_type_def jsor_def default_to_def js_def)
  have sty: "summarize ?env ?i ?t (JObj [(js ''type'', JStr (js ''brief''))])
      = ([], Inl (Error (js ''Type must be '' @ apostrophe @ js ''summary'' @ apostrophe
                          @ js '' or '' @ apostrophe @ js ''takeaway'' @ apostrophe)))"
    using invalid_arguments_rejected[where env = ?env and input = ?i and token = ?t
        and options = "JObj [(js ''type'', JStr (js ''brief''))]"] str ty
    by simp
  have la: "option_type (JObj [(js ''language'', JStr (js ''XX''))]) = JStr (js ''summary'')"
    "option_language (JObj [(js ''language'', JStr (js ''XX''))]) = JStr (js ''XX'')"
    by (simp_all add: option_type_def option_language_def jsor_def default_to_def js_def)
  have la2: "JStr (js ''XX'') \<notin> JStr ` set SUPPORTED_LANGUAGES"
    by (simp add: SUPPORTED_LANGUAGES_def js_def)
  have jn: "join (js '', '') SUPPORTED_LANGUAGES
      = js ''BG, CS, DA, DE, EL, EN, ES, ET, FI, FR, HU, ID, IT, JA, KO, LT, LV, NB, NL, PL, PT, RO, RU, SK, SL, SV, TR, UK, ZH, ZH-HANT''"
    by (simp add: SUPPORTED_LANGUAGES_def js_def)
  have sla: "summarize ?env ?i ?t (JObj [(js ''language'', JStr (js ''XX''))])
      = ([], Inl (Error (js ''Unsupported language code '' @ apostrophe @ js ''XX'' @ apostrophe
            @ js ''. Supported languages: BG, CS, DA, DE, EL, EN, ES, ET, FI, FR, HU, ID, IT, JA, KO, LT, LV, NB, NL, PL, PT, RO, RU, SK, SL, SV, TR, UK, ZH, ZH-HANT'')))"
    using invalid_arguments_rejected[where env = ?env and input = ?i and token = ?t
        and options = "JObj [(js ''language'', JStr (js ''XX''))]"] str la2
    by (simp only: la jn to_string.simps sum.case simp_thms) (simp add: js_def)
  from n0 n15 l0 l15 q t i st sty sla show ?thesis by (simp only: simp_thms)
qed

text \<open>
  C7 as stated fails at the language \<open>{toString: 1}\<close>: it is outside the supported set,
  the template literal of the message throws, and the rejection is a TypeError that
  names no constraint.
\<close>

theorem unsupported_language_counterexample:
  "option_language (JObj [(js ''language'', JObj [(js ''toString'', JNum (Fin 1))])])
     = JObj [(js ''toString'', JNum (Fin 1))]
   \<and> JObj [(js ''toString'', JNum (Fin 1))] \<notin> JStr ` set SUPPORTED_LANGUAGES
   \<and> summarize (fixture_env (ok_response []) broken_document)
        (JStr (js ''text'')) (JStr (js ''token''))
        (JObj [(js ''language'', JObj [(js ''toString'', JNum (Fin 1))])])
       = ([], Inl (TypeError (js ''Cannot convert object to primitive value'')))"
proof -
  have "option_language (JObj [(js ''language'', JObj [(js ''toString'', JNum (Fin 1))])])
     = JObj [(js ''toString'', JNum (Fin 1))]"
    by (simp add: option_language_def jsor_def default_to_def js_def)
  moreover have outside: "JObj [(js ''toString'', JNum (Fin 1))] \<notin> JStr ` set SUPPORTED_LANGUAGES"
    by auto
  moreover have "summarize (fixture_env (ok_response []) broken_document)
        (JStr (js ''text'')) (JStr (js ''token''))
        (JObj [(js ''language'', JObj [(js ''toString'', JNum (Fin 1))])])
       = ([], Inl (TypeError (js ''Cannot convert object to primitive value'')))"
    using outside
    by (simp add: summarize_def Let_def jsor_def default_to_def js_def)
  ultimately show ?thesis by (simp only: simp_thms)
qed

subsection \<open>HTTP status\<close>

lemma parseSearchResults_error_kinds:
  "parseSearchResults load html limit = Inl e \<Longrightarrow>
   e = Error (js ''Failed to parse search results - unexpected HTML structure'')"
  by (auto simp: parseSearchResults_def split: sum.splits)

lemma search_received:
  assumes "search env query token limit = ([req], out)"
    and "fetch env req = Resolved r"
  shows "out =
     (if \<not> resp_ok r then Inl (http_error r)
      else (case parseSearchResults (cheerio_load env) (resp_body r)
                   (the_number (default_to limit (JNum (Fin 10)))) of
              Inl e \<Rightarrow> Inl e
            | Inr results \<Rightarrow> Inr (JObj [(js ''data'', JArr results)])))"
proof -
  let ?parse = "parseSearchResults (cheerio_load env) (resp_body r)
                   (the_number (default_to limit (JNum (Fin 10))))"
  have hk: "network_catch (Inl (http_error r)) = Inl (http_error r)"
    by (simp add: http_error_def network_catch_Error)
  have pk: "network_catch (case ?parse of Inl e \<Rightarrow> Inl e
              | Inr results \<Rightarrow> Inr (JObj [(js ''data'', JArr results)]))
          = (case ?parse of Inl e \<Rightarrow> Inl e
              | Inr results \<Rightarrow> Inr (JObj [(js ''data'', JArr results)]))"
  proof (cases ?parse)
    case (Inl e)
    with parseSearchResults_error_kinds[OF Inl] show ?thesis
      by (simp add: network_catch_Error)
  next
    case (Inr results)
    then show ?thesis by (simp add: network_catch_Inr)
  qed
  from assms show ?thesis
    unfolding search_def Let_def
    by (auto split: if_splits simp: hk pk)
qed

lemma http_error_auth:
  "resp_status r = 401 \<or> resp_status r = 403 \<Longrightarrow>
   \<not> resp_ok r \<and> http_error r = Error (js ''Invalid or expired session token'')"
  by (auto simp: http_error_def resp_ok_def)

lemma http_error_other:
  "resp_status r \<noteq> 401 \<Longrightarrow> resp_status r \<noteq> 403 \<Longrightarrow>
   http_error r = Error (js ''HTTP '' @ dec (resp_status r) @ js '': '' @ resp_statusText r)"
  by (simp add: http_error_def)

text \<open>
  C8: for a response that \<open>search\<close> or \<open>summarize\<close> received for its request, the status
  401 or 403 gives the message \<open>Invalid or expired session token\<close>, any other status
  outside 200 to 299 gives \<open>HTTP\<close>, the status in decimal, a colon and the status
  text, and a status from 200 to 299 gives what the parser makes of the body.
\<close>

theorem http_status_handling:
  assumes "fetch env req = Resolved r"
  shows "(search env query token limit = ([req], out) \<longrightarrow>
           (resp_status r = 401 \<or> resp_status r = 403 \<longrightarrow>
              out = Inl (Error (js ''Invalid or expired session token'')))
         \<and> (\<not> resp_ok r \<and> resp_status r \<noteq> 401 \<and> resp_status r \<noteq> 403 \<longrightarrow>
              out = Inl (Error (js ''HTTP '' @ dec (resp_status r) @ js '': '' @ resp_statusText r)))
         \<and> (resp_ok r \<longrightarrow>
              out = (case parseSearchResults (cheerio_load env) (resp_body r)
                            (the_number (default_to limit (JNum (Fin 10)))) of
                       Inl e \<Rightarrow> Inl e
                     | Inr results \<Rightarrow> Inr (JObj [(js ''data'', JArr results)]))))
       \<and> (summarize env input token' options = ([req], out') \<longrightarrow>
           (resp_status r = 401 \<or> resp_status r = 403 \<longrightarrow>
              out' = Inl (Error (js ''Invalid or expired session token'')))
         \<and> (\<not> resp_ok r \<and> resp_status r \<noteq> 401 \<and> resp_status r \<noteq> 403 \<longrightarrow>
              out' = Inl (Error (js ''HTTP '' @ dec (resp_status r) @ js '': '' @ resp_statusText r)))
         \<and> (resp_ok r \<longrightarrow>
              out' = (case parseStreamingSummary (JSON_parse env) (resp_body r) of
                        Inl e \<Rightarrow> Inl e
                      | Inr payload \<Rightarrow> summary_result env payload)))"
proof (intro conjI impI)
  assume s: "search env query token limit = ([req], out)"
  note rec = search_received[OF s assms]
  {
    assume "resp_status r = 401 \<or> resp_status r = 403"
    from http_error_auth[OF this] rec
    show "out = Inl (Error (js ''Invalid or expired session token''))" by simp
  next
    assume "\<not> resp_ok r \<and> resp_status r \<noteq> 401 \<and> resp_status r \<noteq> 403"
    with rec
    show "out = Inl (Error (js ''HTTP '' @ dec (resp_status r) @ js '': '' @ resp_statusText r))"
      by (simp add: http_error_other del: dec.simps)
  next
    assume "resp_ok r"
    with rec
    show "out = (case parseSearchResults (cheerio_load env) (resp_body r)
                            (the_number (default_to limit (JNum (Fin 10)))) of
                       Inl e \<Rightarrow> Inl e
                     | Inr results \<Rightarrow> Inr (JObj [(js ''data'', JArr results)]))"
      by simp
  }
next
  assume s: "summarize env input token' options = ([req], out')"
  note rec = summarize_received[OF s assms]
  {
    assume "resp_status r = 401 \<or> resp_status r = 403"
    from http_error_auth[OF this] rec
    show "out' = Inl (Error (js ''Invalid or expired session token''))" by simp
  next
    assume "\<not> resp_ok r \<and> resp_status r \<noteq> 401 \<and> resp_status r \<noteq> 403"
    with rec
    show "out' = Inl (Error (js ''HTTP '' @ dec (resp_status r) @ js '': '' @ resp_statusText r))"
      by (simp add: http_error_other del: dec.simps)
  next
    assume "resp_ok r"
    with rec
    show "out' = (case parseStreamingSummary (JSON_parse env) (resp_body r) of
                        Inl e \<Rightarrow> Inl e
                      | Inr payload \<Rightarrow> summary_result env payload)"
      by simp
  }
qed

lemma fixture_search:
  "search (fixture_env r api) (JStr (js ''kagi'')) (JStr (js ''token'')) JUndefined
     = ([search_request (fixture_env r api) (js ''kagi'') (js ''token'')],
        snd (search (fixture_env r api) (JStr (js ''kagi'')) (JStr (js ''token'')) JUndefined))"
  by (simp add: search_def Let_def default_to_def js_def is_high_surrogate_def
      is_low_surrogate_def)

lemma dec_404: "dec 404 = js ''404''"
  by (simp add: js_def)

text \<open>
  The statuses 403 and 404 for both entry points, and 200 for \<open>summarize\<close>.
\<close>

theorem http_status_handling_witness:
  "resp_status forbidden_response = 403
   \<and> snd (search (fixture_env forbidden_response example_document)
            (JStr (js ''kagi'')) (JStr (js ''token'')) JUndefined)
       = Inl (Error (js ''Invalid or expired session token''))
   \<and> snd (summarize (fixture_env forbidden_response example_document)
            (JStr (js ''text'')) (JStr (js ''token'')) JUndefined)
       = Inl (Error (js ''Invalid or expired session token''))
   \<and> resp_status not_found_response = 404
   \<and> snd (search (fixture_env not_found_response example_document)
            (JStr (js ''kagi'')) (JStr (js ''token'')) JUndefined)
       = Inl (Error (js ''HTTP 404: Not Found''))
   \<and> snd (summarize (fixture_env not_found_response example_document)
            (JStr (js ''text'')) (JStr (js ''token'')) JUndefined)
       = Inl (Error (js ''HTTP 404: Not Found''))
   \<and> resp_ok (ok_response (js ''new_message.json:{\"md\":\"X\"}''))
   \<and> snd (summarize (fixture_env (ok_response (js ''new_message.json:{\"md\":\"X\"}'')) example_document)
            (JStr (js ''text'')) (JStr (js ''token'')) JUndefined)
       = Inr (summary_response (JStr (js ''X'')))"
proof -
  let ?q = "JStr (js ''kagi'')" and ?t = "JStr (js ''token'')" and ?i = "JStr (js ''text'')"
  let ?ok = "ok_response (js ''new_message.json:{\"md\":\"X\"}'')"
  have f: "\<And>r req. fetch (fixture_env r example_document) req = Resolved r"
    by (simp add: fixture_env_def)
  have st: "resp_status forbidden_response = 403" "resp_status not_found_response = 404"
    "\<not> resp_ok not_found_response" "resp_statusText not_found_response = js ''Not Found''"
    "resp_ok ?ok"
    by (simp_all add: forbidden_response_def not_found_response_def ok_response_def resp_ok_def)
  have a: "snd (search (fixture_env forbidden_response example_document) ?q ?t JUndefined)
       = Inl (Error (js ''Invalid or expired session token''))"
    using http_status_handling[OF f, where query = ?q and token = ?t and limit = JUndefined,
        THEN conjunct1, rule_format, THEN conjunct1, rule_format, OF fixture_search] st
    by simp
  have b: "snd (summarize (fixture_env forbidden_response example_document) ?i ?t JUndefined)
       = Inl (Error (js ''Invalid or expired session token''))"
    using http_status_handling[OF f, where input = ?i and token' = ?t and options = JUndefined,
        THEN conjunct2, rule_format, THEN conjunct1, rule_format, OF fixture_summarize] st
    by simp
  have m: "js ''HTTP '' @ dec 404 @ js '': '' @ js ''Not Found'' = js ''HTTP 404: Not Found''"
    by (simp only: dec_404) (simp add: js_def)
  have c: "snd (search (fixture_env not_found_response example_document) ?q ?t JUndefined)
       = Inl (Error (js ''HTTP 404: Not Found''))"
    using http_status_handling[OF f, where query = ?q and token = ?t and limit = JUndefined,
        THEN conjunct1, rule_format, THEN conjunct2, THEN conjunct1, rule_format,
        OF fixture_search] st
    by (simp add: m del: dec.simps)
  have d: "snd (summarize (fixture_env not_found_response example_document) ?i ?t JUndefined)
       = Inl (Error (js ''HTTP 404: Not Found''))"
    using http_status_handling[OF f, where input = ?i and token' = ?t and options = JUndefined,
        THEN conjunct2, rule_format, THEN conjunct2, THEN conjunct1, rule_format,
        OF fixture_summarize] st
    by (simp add: m del: dec.simps)
  have p: "parseStreamingSummary fixture_JSON_parse (js ''new_message.json:{\"md\":\"X\"}'')
        = Inr (JObj [(js ''md'', JStr (js ''X''))])"
    by (simp add: eval_defs parseStreamingSummary_def fixture_JSON_parse_def)
  have e: "snd (summarize (fixture_env ?ok example_document) ?i ?t JUndefined)
       = Inr (summary_response (JStr (js ''X'')))"
    using http_status_handling[OF f, where input = ?i and token' = ?t and options = JUndefined,
        THEN conjunct2, rule_format, THEN conjunct2, THEN conjunct2, rule_format,
        OF fixture_summarize] st(5)
    apply (simp only: fixture_env_def env.simps ok_response_def response.simps p)
    apply (simp add: p summary_result_def summary_output_def summary_response_def jsor_def js_def)
    done
  from st a b c d e show ?thesis by simp
qed

lemma valid_arguments_send:
  assumes "nonempty_string query" and "nonempty_string token"
    and "limit = JUndefined \<or> positive_integer limit"
    and "\<not> lone_surrogate (string_of query)"
  shows "fst (search env query token limit)
     = [search_request env (string_of query) (string_of token)]"
proof (cases "limit = JUndefined")
  case True
  with assms show ?thesis
    by (simp add: search_def Let_def nonempty_string_iff default_limit)
next
  case False
  with assms have "\<not> limit_rejected limit" by (simp add: limit_rejected_iff)
  with False assms show ?thesis
    by (simp add: search_def Let_def nonempty_string_iff default_limit)
qed

lemma surrogate_examples:
  "lone_surrogate [0x61, 0xD83D] \<and> lone_surrogate [0xDE00, 0x61]
   \<and> \<not> lone_surrogate [0x61, 0xD83D, 0xDE00]
   \<and> usv_string [0x61, 0xD83D] = [0x61, 0xFFFD]
   \<and> usv_string [0x61, 0xD83D, 0xDE00] = [0x61, 0xD83D, 0xDE00]"
  by (simp add: is_high_surrogate_def is_low_surrogate_def)

lemma usv_string_well_formed: "\<not> lone_surrogate s \<Longrightarrow> usv_string s = s"
  by (induction s rule: lone_surrogate.induct) (auto split: if_splits)

lemma malformed_query_not_sent:
  assumes "nonempty_string query" and "nonempty_string token"
    and "limit = JUndefined \<or> positive_integer limit"
    and "lone_surrogate (string_of query)"
  shows "search env query token limit = ([], Inl (URIError (js ''URI malformed'')))"
proof (cases "limit = JUndefined")
  case True
  with assms show ?thesis
    by (simp add: search_def Let_def nonempty_string_iff default_limit network_catch_no_code)
next
  case False
  with assms have "\<not> limit_rejected limit" by (simp add: limit_rejected_iff)
  with False assms show ?thesis
    by (simp add: search_def Let_def nonempty_string_iff default_limit network_catch_no_code)
qed

subsection \<open>The extent of the two deviations\<close>

text \<open>
  The candidate of the source is that of the specification unless the latter is empty,
  and the related searches are the terms of the elements before the first one whose
  text cannot be read.
\<close>

lemma trim_keeps_head:
  "xs = [] \<or> \<not> P (hd xs) \<Longrightarrow>
   rev (dropWhile P (rev xs)) = [] \<or> \<not> P (hd (rev (dropWhile P (rev xs))))"
proof (induction xs rule: rev_induct)
  case Nil
  then show ?case by simp
next
  case (snoc y ys)
  show ?case
  proof (cases "P y")
    case False
    with snoc.prems show ?thesis by simp
  next
    case True
    from snoc.prems have "ys = [] \<or> \<not> P (hd ys)" by (cases ys) auto
    from snoc.IH[OF this] True show ?thesis by simp
  qed
qed

lemma dropWhile_self: "xs = [] \<or> \<not> P (hd xs) \<Longrightarrow> dropWhile P xs = xs"
  by (cases xs) auto

lemma dropWhile_head: "dropWhile P xs = [] \<or> \<not> P (hd (dropWhile P xs))"
  using hd_dropWhile[of P xs] by blast

lemma trim_idem: "trim (trim s) = trim s"
proof -
  let ?u = "dropWhile is_ws s"
  let ?t = "rev (dropWhile is_ws (rev ?u))"
  have "?t = [] \<or> \<not> is_ws (hd ?t)"
    by (rule trim_keeps_head) (rule dropWhile_head)
  then have 1: "dropWhile is_ws ?t = ?t" by (rule dropWhile_self)
  have 2: "dropWhile is_ws (rev ?t) = rev ?t" by (simp add: dropWhile_idem)
  show ?thesis
    unfolding trim_def by (simp only: 1 2 rev_rev_ident dropWhile_idem)
qed

lemma startsWith_iff: "startsWith s p \<longleftrightarrow> (\<exists>rest. s = p @ rest)"
  by (induction s p rule: startsWith.induct) auto

lemma remove_new_message_tag:
  "startsWith msg (js ''new_message.json:'') \<Longrightarrow>
   re_remove re_new_message msg = drop (length (js ''new_message.json:'')) msg"
  by (auto simp: startsWith_iff re_remove_def re_new_message_def re_lit_def re_dot_def js_def)

lemma remove_final_tag:
  "startsWith msg (js ''final:'') \<Longrightarrow>
   re_remove re_final msg = drop (length (js ''final:'')) msg"
  by (auto simp: startsWith_iff re_remove_def re_final_def re_lit_def js_def)

lemma scan_messages_find:
  "scan_messages ms = map_option (\<lambda>frame. trim (strip_tag (trim frame))) (find has_tag ms)"
proof (induction ms)
  case Nil
  then show ?case by simp
next
  case (Cons m ms)
  show ?case
  proof (cases "startsWith (trim m) (js ''new_message.json:'')")
    case True
    then show ?thesis
      by (simp add: has_tag_def strip_tag_def remove_new_message_tag Let_def)
  next
    case False
    show ?thesis
    proof (cases "startsWith (trim m) (js ''final:'')")
      case True
      with False show ?thesis
        by (simp add: has_tag_def strip_tag_def remove_final_tag Let_def)
    next
      case no: False
      with False Cons.IH show ?thesis
        by (simp add: has_tag_def Let_def)
    qed
  qed
qed

lemma json_candidate_spec:
  assumes "messages \<noteq> []"
  shows "json_candidate messages
     = (if spec_candidate messages = [] then trim (last messages) else spec_candidate messages)"
proof (cases "find has_tag (rev messages)")
  case (Some frame)
  then show ?thesis
    by (simp add: json_candidate_def spec_candidate_def scan_messages_find)
next
  case None
  from assms have "last messages \<in> set (rev messages)" by simp
  with None have "\<not> has_tag (last messages)" by (auto simp: find_None_iff)
  then have "strip_tag (trim (last messages)) = trim (last messages)"
    by (simp add: has_tag_def strip_tag_def)
  with None show ?thesis
    by (simp add: json_candidate_def spec_candidate_def scan_messages_find trim_idem)
qed

lemma each_related_until_throw:
  "fst (cheerio_each (related_callback api) elements acc)
     = acc @ related_terms
         (map (\<lambda>e. case cheerio_text api [e] of Inl x \<Rightarrow> [] | Inr t \<Rightarrow> t)
            (takeWhile (\<lambda>e. \<not> isl (cheerio_text api [e])) elements))"
proof (induction elements arbitrary: acc)
  case Nil
  then show ?case by (simp add: related_terms_def)
next
  case (Cons e es)
  show ?case
  proof (cases "cheerio_text api [e]")
    case (Inl x)
    then show ?thesis by (simp add: related_callback_def related_terms_def)
  next
    case (Inr t)
    with Cons.IH[of "acc @ [trim t]"] Cons.IH[of acc] show ?thesis
      by (simp add: related_callback_def related_terms_def Let_def)
  qed
qed

lemma extractRelatedSearches_until_throw:
  "cheerio_select api (js ''.related-searches a span'') = Inr elements \<Longrightarrow>
   extractRelatedSearches api
     = related_terms
         (map (\<lambda>e. case cheerio_text api [e] of Inl x \<Rightarrow> [] | Inr t \<Rightarrow> t)
            (takeWhile (\<lambda>e. \<not> isl (cheerio_text api [e])) elements))"
  using each_related_until_throw[of api elements "[]"]
  by (simp add: extractRelatedSearches_def)

subsection \<open>Revision 1.3.0\<close>

text \<open>
  The earlier revision reports a candidate that is not JSON as a parse error, reads the
  last message only, and takes the first value that is not \<open>null\<close> or \<open>undefined\<close>.
\<close>

lemma revision_1_3_0_parse_error:
  "parseStreamingSummary_1_3_0 fixture_JSON_parse (js ''not json'')
     = Inl (Error (js ''Failed to parse summary JSON response''))"
  by (simp add: eval_defs parseStreamingSummary_1_3_0_def re_new_message_escaped_def
      fixture_JSON_parse_def)

lemma revision_1_3_0_empty_payload:
  "parseStreamingSummary_1_3_0 fixture_JSON_parse (js ''final:'')
     = Inl (Error (js ''Failed to parse summary response''))"
  by (simp add: eval_defs parseStreamingSummary_1_3_0_def re_new_message_escaped_def
      fixture_JSON_parse_def)

lemma revision_1_3_0_last_message_only:
  "parseStreamingSummary_1_3_0 fixture_JSON_parse
     (js ''new_message.json:{\"md\":\"X\"}'' @ [0] @ js ''hi:{}'')
     = Inl (Error (js ''Failed to parse summary JSON response''))
   \<and> parseStreamingSummary fixture_JSON_parse
     (js ''new_message.json:{\"md\":\"X\"}'' @ [0] @ js ''hi:{}'')
     = Inr (JObj [(js ''md'', JStr (js ''X''))])"
  by (simp add: eval_defs parseStreamingSummary_1_3_0_def parseStreamingSummary_def
      re_new_message_escaped_def fixture_JSON_parse_def)

lemma revision_1_3_0_output:
  "summary_output_1_3_0 (JObj [(js ''md'', JStr []), (js ''reply'', JStr (js ''Z''))]) = JStr []
   \<and> summary_output_1_3_0
        (JObj [(js ''md'', JStr (js ''A'')),
               (js ''output_data'', JObj [(js ''markdown'', JStr (js ''B''))])]) = JStr (js ''B'')
   \<and> summary_output
        (JObj [(js ''md'', JStr (js ''A'')),
               (js ''output_data'', JObj [(js ''markdown'', JStr (js ''B''))])]) = JStr (js ''A'')"
  by (simp add: summary_output_1_3_0_def summary_output_def nullish_def jsor_def js_def)

end
